theory Spec2Isabelle
  imports Complex_Main "HOL-Library.Sublist"
begin

section \<open>Strings, numbers and time stamps\<close>

text \<open>
  Go strings are byte strings; \<open>string\<close> (a list of 8-bit characters) models them
  directly. The message literals of \<open>run.go\<close> are Chinese; they are rendered
  here by ASCII text with the same format verbs, since only the place where a message is
  emitted matters below, never its wording.
\<close>

definition nl :: string where
  "nl = [CHR 0x0A]"

text \<open>\<open>strings.HasSuffix\<close>:
  \<^verbatim>\<open>len(s) >= len(suffix) && s[len(s)-len(suffix):] == suffix\<close>.\<close>

definition HasSuffix :: "string \<Rightarrow> string \<Rightarrow> bool" where
  "HasSuffix s suf \<longleftrightarrow> length suf \<le> length s \<and> drop (length s - length suf) s = suf"

text \<open>
  \<open>strings.TrimSpace\<close> removes leading and trailing white space as
  \<open>unicode.IsSpace\<close> defines it. The list holds the UTF-8 encodings of the white-space
  code points: U+0009..U+000D, U+0020, U+0085, U+00A0, U+1680, U+2000..U+200A, U+2028,
  U+2029, U+202F, U+205F, U+3000.
\<close>

definition spaceRunes :: "string list" where
  "spaceRunes =
     [[CHR 0x09], [CHR 0x0A], [CHR 0x0B], [CHR 0x0C], [CHR 0x0D], [CHR 0x20],
      [CHR 0xC2, CHR 0x85], [CHR 0xC2, CHR 0xA0],
      [CHR 0xE1, CHR 0x9A, CHR 0x80],
      [CHR 0xE2, CHR 0x80, CHR 0x80], [CHR 0xE2, CHR 0x80, CHR 0x81],
      [CHR 0xE2, CHR 0x80, CHR 0x82], [CHR 0xE2, CHR 0x80, CHR 0x83],
      [CHR 0xE2, CHR 0x80, CHR 0x84], [CHR 0xE2, CHR 0x80, CHR 0x85],
      [CHR 0xE2, CHR 0x80, CHR 0x86], [CHR 0xE2, CHR 0x80, CHR 0x87],
      [CHR 0xE2, CHR 0x80, CHR 0x88], [CHR 0xE2, CHR 0x80, CHR 0x89],
      [CHR 0xE2, CHR 0x80, CHR 0x8A],
      [CHR 0xE2, CHR 0x80, CHR 0xA8], [CHR 0xE2, CHR 0x80, CHR 0xA9],
      [CHR 0xE2, CHR 0x80, CHR 0xAF], [CHR 0xE2, CHR 0x81, CHR 0x9F],
      [CHR 0xE3, CHR 0x80, CHR 0x80]]"

definition leadSpace :: "string \<Rightarrow> nat" where
  "leadSpace s = (case find (\<lambda>r. take (length r) s = r) spaceRunes of
                    None \<Rightarrow> 0 | Some r \<Rightarrow> length r)"

definition trailSpace :: "string \<Rightarrow> nat" where
  "trailSpace s = (case find (\<lambda>r. HasSuffix s r) spaceRunes of
                     None \<Rightarrow> 0 | Some r \<Rightarrow> length r)"

lemma leadSpace_le: "leadSpace s \<le> length s"
proof (cases "find (\<lambda>r. take (length r) s = r) spaceRunes")
  case None
  then show ?thesis by (simp add: leadSpace_def)
next
  case (Some r)
  then have "take (length r) s = r" by (auto simp: find_Some_iff)
  then have "length r \<le> length s" by (metis length_take min.cobounded1)
  with Some show ?thesis by (simp add: leadSpace_def)
qed

lemma trailSpace_le: "trailSpace s \<le> length s"
  by (auto simp: trailSpace_def HasSuffix_def find_Some_iff split: option.splits)

function trimLeft :: "string \<Rightarrow> string" where
  "trimLeft s = (if leadSpace s = 0 then s else trimLeft (drop (leadSpace s) s))"
  by pat_completeness auto
termination
proof (relation "measure length")
  show "wf (measure length)" by simp
next
  fix s :: string
  assume "leadSpace s \<noteq> 0"
  moreover have "leadSpace s \<le> length s" by (rule leadSpace_le)
  ultimately show "(drop (leadSpace s) s, s) \<in> measure length" by simp
qed

function trimRight :: "string \<Rightarrow> string" where
  "trimRight s = (if trailSpace s = 0 then s
                  else trimRight (take (length s - trailSpace s) s))"
  by pat_completeness auto
termination
proof (relation "measure length")
  show "wf (measure length)" by simp
next
  fix s :: string
  assume "trailSpace s \<noteq> 0"
  moreover have "trailSpace s \<le> length s" by (rule trailSpace_le)
  ultimately show "(take (length s - trailSpace s) s, s) \<in> measure length" by simp
qed

definition TrimSpace :: "string \<Rightarrow> string" where
  "TrimSpace s = trimRight (trimLeft s)"

text \<open>Decimal rendering of numbers, as \<open>%d\<close> and the time layouts print them.\<close>

definition digit :: "nat \<Rightarrow> char" where
  "digit d = char_of (48 + d)"

fun utoa :: "nat \<Rightarrow> string" where
  "utoa n = (if n < 10 then [digit n] else utoa (n div 10) @ [digit (n mod 10)])"

definition itoa :: "int \<Rightarrow> string" where
  "itoa i = (if i < 0 then CHR ''-'' # utoa (nat (- i)) else utoa (nat i))"

text \<open>Zero padding to a minimal width, as the layouts \<open>2006\<close>, \<open>01\<close>, \<open>02\<close>,
  \<open>15\<close>, \<open>04\<close>, \<open>05\<close> do.\<close>

definition pad :: "nat \<Rightarrow> nat \<Rightarrow> string" where
  "pad w n = replicate (w - length (utoa n)) CHR ''0'' @ utoa n"

definition isDigit :: "char \<Rightarrow> bool" where
  "isDigit c \<longleftrightarrow> 48 \<le> (of_char c :: nat) \<and> (of_char c :: nat) \<le> 57"

text \<open>A layout is matched character by character; \<open>d\<close> stands for a decimal digit.\<close>

fun matchLayout :: "string \<Rightarrow> string \<Rightarrow> bool" where
  "matchLayout [] [] = True"
| "matchLayout (p # ps) (c # cs) =
     ((if p = CHR ''d'' then isDigit c else c = p) \<and> matchLayout ps cs)"
| "matchLayout _ _ = False"

record gotime =
  Year :: nat
  Month :: nat
  Day :: nat
  Hour :: nat
  Minute :: nat
  Second :: nat

text \<open>The calendar fields \<open>time.Now()\<close> can yield, with a four-digit year.\<close>

definition validTime :: "gotime \<Rightarrow> bool" where
  "validTime t \<longleftrightarrow> Year t \<le> 9999 \<and> 1 \<le> Month t \<and> Month t \<le> 12 \<and> 1 \<le> Day t \<and> Day t \<le> 31
     \<and> Hour t \<le> 23 \<and> Minute t \<le> 59 \<and> Second t \<le> 59"

text \<open>\<open>t.Format("2006-01-02 15:04:05")\<close>, the layout of \<open>writeLog\<close>.\<close>

definition formatLogTime :: "gotime \<Rightarrow> string" where
  "formatLogTime t = pad 4 (Year t) @ ''-'' @ pad 2 (Month t) @ ''-'' @ pad 2 (Day t) @ '' ''
      @ pad 2 (Hour t) @ '':'' @ pad 2 (Minute t) @ '':'' @ pad 2 (Second t)"

text \<open>\<open>t.Format("20060102_150405")\<close>, the layout of \<open>getTimestamp\<close>.\<close>

definition formatStamp :: "gotime \<Rightarrow> string" where
  "formatStamp t = pad 4 (Year t) @ pad 2 (Month t) @ pad 2 (Day t) @ ''_''
      @ pad 2 (Hour t) @ pad 2 (Minute t) @ pad 2 (Second t)"

text \<open>The prefix the standard logger puts before a message (\<open>log.LstdFlags\<close>).\<close>

definition formatStdLog :: "gotime \<Rightarrow> string" where
  "formatStdLog t = pad 4 (Year t) @ ''/'' @ pad 2 (Month t) @ ''/'' @ pad 2 (Day t) @ '' ''
      @ pad 2 (Hour t) @ '':'' @ pad 2 (Minute t) @ '':'' @ pad 2 (Second t) @ '' ''"

section \<open>Paths\<close>

text \<open>
  \<open>filepath.Join\<close> on a system whose separator is \<open>/\<close>: the elements from the first
  non-empty one on are joined by the separator and the result is cleaned lexically.
  \<open>filepath.Clean\<close> drops empty and \<open>.\<close> components and lets a \<open>..\<close> component
  cancel the component before it; a \<open>..\<close> with nothing to cancel is kept in a relative
  path and dropped in a rooted one.
\<close>

fun splitSlash :: "string \<Rightarrow> string list" where
  "splitSlash [] = [[]]"
| "splitSlash (c # cs) =
     (if c = CHR ''/'' then [] # splitSlash cs
      else (case splitSlash cs of [] \<Rightarrow> [[c]] | x # xs \<Rightarrow> (c # x) # xs))"

text \<open>\<open>strings.Join(elems, sep)\<close>.\<close>

fun joinStrings :: "string list \<Rightarrow> string \<Rightarrow> string" where
  "joinStrings [] sep = []"
| "joinStrings [x] sep = x"
| "joinStrings (x # y # ys) sep = x @ sep @ joinStrings (y # ys) sep"

definition cleanStep :: "bool \<Rightarrow> string list \<Rightarrow> string \<Rightarrow> string list" where
  "cleanStep rooted out c =
     (if c = [] \<or> c = ''.'' then out
      else if c = ''..'' then
        (if out \<noteq> [] \<and> last out \<noteq> ''..'' then butlast out
         else if rooted then out
         else out @ [''..''])
      else out @ [c])"

definition Clean :: "string \<Rightarrow> string" where
  "Clean path =
     (if path = [] then ''.''
      else let rooted = (hd path = CHR ''/'');
               out = foldl (cleanStep rooted) [] (splitSlash path)
           in if rooted then CHR ''/'' # joinStrings out ''/''
              else if out = [] then ''.''
              else joinStrings out ''/'')"

definition Join :: "string list \<Rightarrow> string" where
  "Join elems = (case dropWhile (\<lambda>e. e = []) elems of
                   [] \<Rightarrow> []
                 | es \<Rightarrow> Clean (joinStrings es ''/''))"


definition jtlDir :: string where
  "jtlDir = ''Jtl''"

definition debugDir :: string where
  "debugDir = ''Debug''"

definition logFile :: string where
  "logFile = Join [debugDir, ''pmeter.log'']"

section \<open>Errors, the process and its environment\<close>

datatype errkind = NotExist | Permission | OtherError string

datatype error =
    PathError string string errkind
  | SyntaxError string
  | UnmarshalTypeError string string
  | NumError string string string
  | ExecError string

fun kindText :: "errkind \<Rightarrow> string" where
  "kindText NotExist = ''no such file or directory''"
| "kindText Permission = ''permission denied''"
| "kindText (OtherError m) = m"

text \<open>\<open>err.Error()\<close>. The texts of a \<open>NumError\<close> and of an
  \<open>UnmarshalTypeError\<close> are abridged: the library also quotes the input of the former
  with \<open>strconv.Quote\<close> and names the struct field of the latter. The program writes
  these texts to the log and does nothing else with them.\<close>

fun Error :: "error \<Rightarrow> string" where
  "Error (PathError opn path k) = opn @ '' '' @ path @ '': '' @ kindText k"
| "Error (SyntaxError m) = m"
| "Error (UnmarshalTypeError v t) =
     ''json: cannot unmarshal '' @ v @ '' into Go value of type '' @ t"
| "Error (NumError f n m) = ''strconv.'' @ f @ '': parsing '' @ n @ '': '' @ m"
| "Error (ExecError m) = m"

text \<open>\<open>os.IsNotExist\<close>.\<close>

fun IsNotExist :: "error \<Rightarrow> bool" where
  "IsNotExist (PathError opn path NotExist) = True"
| "IsNotExist e = False"

text \<open>
  \<open>strconv.ParseInt(s, 10, 64)\<close>, which is also what \<open>strconv.Atoi\<close> computes where
  \<open>int\<close> has 64 bits: an optional sign, then one or more decimal digits and nothing
  else; a value outside the 64-bit range is an error. The first argument is the function
  name the error carries.
\<close>

definition digitsVal :: "string \<Rightarrow> nat" where
  "digitsVal ds = foldl (\<lambda>a c. 10 * a + (of_char c - 48)) 0 ds"

definition ParseInt :: "string \<Rightarrow> string \<Rightarrow> error + int" where
  "ParseInt fn s =
     (let neg = (s \<noteq> [] \<and> hd s = CHR ''-'');
          body = (if s \<noteq> [] \<and> (hd s = CHR ''+'' \<or> hd s = CHR ''-'') then tl s else s)
      in if body = [] \<or> \<not> list_all isDigit body then Inl (NumError fn s ''invalid syntax'')
         else let v = (if neg then - int (digitsVal body) else int (digitsVal body))
              in if v < - (2 ^ 63) \<or> 2 ^ 63 - 1 < v then Inl (NumError fn s ''value out of range'')
                 else Inr v)"

definition Atoi :: "string \<Rightarrow> error + int" where
  "Atoi s = ParseInt ''Atoi'' s"

text \<open>
  A function of the program either returns a value or ends the process with an exit
  status (\<open>os.Exit\<close>, \<open>log.Fatalf\<close>).
\<close>

datatype 'a outcome = Ret 'a | Exit int

text \<open>A failed type assertion panics; the runtime then ends the process with status 2.\<close>

definition panic :: "'a outcome" where
  "panic = Exit 2"

datatype stream = OsStdout | OsStderr

text \<open>\<open>exec.Cmd\<close> as \<open>exec.Command\<close> builds it: \<open>Path\<close> is the name of the
  program as given, before the library looks it up in the directories of \<open>PATH\<close>;
  \<open>Args\<close> holds the command name followed by its arguments; a stream left unset is
  \<open>None\<close>.\<close>

record cmd =
  Path :: string
  Args :: "string list"
  Stdout :: "stream option"
  Stderr :: "stream option"

text \<open>
  The environment of the process. \<open>stdin\<close> holds what successive \<open>fmt.Scanln\<close>
  calls store into their string operand (the next word of the input, empty on a blank
  line or at end of input); \<open>stdout\<close> and \<open>stderr\<close> are what the process has written;
  \<open>clock\<close> gives the result of the \<open>n\<close>-th call of \<open>time.Now\<close>; \<open>statErr\<close> is
  the current answer of \<open>os.Stat\<close> and \<open>files\<close> the current contents of the regular
  files. The remaining fields say how the system answers: whether \<open>os.MkdirAll\<close>,
  \<open>os.OpenFile\<close> (append, create, write only) and \<open>ioutil.ReadFile\<close> fail on a
  path, how many bytes a write stores before it fails, what \<open>ioutil.ReadDir(".")\<close>
  returns (name and \<open>IsDir\<close> of each entry), and what running a command returns and
  does to the files. \<open>spawned\<close> records the commands handed to \<open>cmd.Run\<close> so far.
\<close>

record world =
  stdin :: "string list"
  stdout :: string
  stderr :: string
  clock :: "nat \<Rightarrow> gotime"
  ticks :: nat
  statErr :: "string \<Rightarrow> error option"
  files :: "string \<Rightarrow> string option"
  mkdirErr :: "string \<Rightarrow> error option"
  openErr :: "string \<Rightarrow> error option"
  writeErr :: "string \<Rightarrow> string \<Rightarrow> (nat \<times> error) option"
  readErr :: "string \<Rightarrow> error option"
  readDir :: "error + (string \<times> bool) list"
  runCmd :: "cmd \<Rightarrow> (string \<Rightarrow> string option) \<Rightarrow> error option \<times> (string \<Rightarrow> string option)"
  spawned :: "cmd list"

definition andThen ::
  "'a outcome \<times> world \<Rightarrow> ('a \<Rightarrow> world \<Rightarrow> 'b outcome \<times> world) \<Rightarrow> 'b outcome \<times> world" where
  "andThen m f = (case m of (Ret x, w) \<Rightarrow> f x w | (Exit c, w) \<Rightarrow> (Exit c, w))"

definition Now :: "world \<Rightarrow> gotime \<times> world" where
  "Now w = (clock w (ticks w), w\<lparr>ticks := Suc (ticks w)\<rparr>)"

definition Print :: "string \<Rightarrow> world \<Rightarrow> world" where
  "Print s w = w\<lparr>stdout := stdout w @ s\<rparr>"

text \<open>Output of the standard logger: the time prefix, then the text, on \<open>stderr\<close>.\<close>

definition logOutput :: "string \<Rightarrow> world \<Rightarrow> world" where
  "logOutput s w = (case Now w of (t, w1) \<Rightarrow> w1\<lparr>stderr := stderr w1 @ formatStdLog t @ s\<rparr>)"

definition Scanln :: "world \<Rightarrow> string \<times> world" where
  "Scanln w = (case stdin w of [] \<Rightarrow> ([], w) | x # xs \<Rightarrow> (x, w\<lparr>stdin := xs\<rparr>))"

definition MkdirAll :: "string \<Rightarrow> world \<Rightarrow> error option \<times> world" where
  "MkdirAll dir w = (case mkdirErr w dir of
                       Some e \<Rightarrow> (Some e, w)
                     | None \<Rightarrow> (None, w\<lparr>statErr := (statErr w)(dir := None)\<rparr>))"

definition content :: "world \<Rightarrow> string \<Rightarrow> string" where
  "content w path = (case files w path of None \<Rightarrow> [] | Some d \<Rightarrow> d)"

text \<open>\<open>os.OpenFile(path, O_APPEND|O_CREATE|O_WRONLY, 0644)\<close>: an absent file is
  created empty, an existing one is left as it is.\<close>

definition OpenAppend :: "string \<Rightarrow> world \<Rightarrow> error option \<times> world" where
  "OpenAppend path w = (case openErr w path of
                          Some e \<Rightarrow> (Some e, w)
                        | None \<Rightarrow> (None, w\<lparr>files := (files w)(path \<mapsto> content w path)\<rparr>))"

text \<open>\<open>file.WriteString\<close> on a file opened for appending: the bytes written, all of
  them or the first \<open>n\<close> when the write fails, go to the end of the file.\<close>

definition WriteString :: "string \<Rightarrow> string \<Rightarrow> world \<Rightarrow> error option \<times> world" where
  "WriteString path s w = (case writeErr w path s of
                             Some (n, e) \<Rightarrow>
                               (Some e, w\<lparr>files := (files w)(path \<mapsto> content w path @ take n s)\<rparr>)
                           | None \<Rightarrow>
                               (None, w\<lparr>files := (files w)(path \<mapsto> content w path @ s)\<rparr>))"

definition ReadFile :: "string \<Rightarrow> world \<Rightarrow> error + string" where
  "ReadFile path w = (case readErr w path of
                        Some e \<Rightarrow> Inl e
                      | None \<Rightarrow> (case files w path of
                                   None \<Rightarrow> Inl (PathError ''open'' path NotExist)
                                 | Some d \<Rightarrow> Inr d))"

section \<open>The logger\<close>

definition ensureDir :: "string \<Rightarrow> world \<Rightarrow> unit outcome \<times> world" where
  "ensureDir dir w =
     (case statErr w dir of
        None \<Rightarrow> (Ret (), w)
      | Some err \<Rightarrow>
          if IsNotExist err then
            (case MkdirAll dir w of
               (Some e, w1) \<Rightarrow>
                 (Exit 1, logOutput (''cannot create directory '' @ dir @ '': '' @ Error e @ nl) w1)
             | (None, w1) \<Rightarrow> (Ret (), w1))
          else (Ret (), w))"

definition logEntry :: "gotime \<Rightarrow> string \<Rightarrow> string" where
  "logEntry t msg = ''['' @ formatLogTime t @ ''] '' @ msg @ nl"

definition writeLog :: "string \<Rightarrow> world \<Rightarrow> unit outcome \<times> world" where
  "writeLog msg w =
     (case Now w of (timestamp, w1) \<Rightarrow>
        andThen (ensureDir debugDir w1) (\<lambda>_ w2.
          case OpenAppend logFile w2 of
            (Some err, w3) \<Rightarrow>
              (Ret (), logOutput (''cannot open log file: '' @ Error err @ nl) w3)
          | (None, w3) \<Rightarrow>
              (case WriteString logFile (logEntry timestamp msg) w3 of
                 (Some err, w4) \<Rightarrow>
                   (Ret (), logOutput (''writing the log failed: '' @ Error err @ nl) w4)
               | (None, w4) \<Rightarrow> (Ret (), w4))))"

definition Run :: "cmd \<Rightarrow> world \<Rightarrow> error option \<times> world" where
  "Run c w = (case runCmd w c (files w) of
                (err, fs) \<Rightarrow> (err, w\<lparr>files := fs, spawned := spawned w @ [c]\<rparr>))"

section \<open>The scanner and the prompts\<close>

fun collectJMX :: "(string \<times> bool) list \<Rightarrow> string list" where
  "collectJMX [] = []"
| "collectJMX ((name, isDir) # entries) =
     (if \<not> isDir \<and> HasSuffix name ''.jmx'' then name # collectJMX entries
      else collectJMX entries)"

fun printFiles :: "nat \<Rightarrow> string list \<Rightarrow> world \<Rightarrow> world" where
  "printFiles idx [] w = w"
| "printFiles idx (file # rest) w =
     printFiles (idx + 1) rest (Print (utoa (idx + 1) @ ''. '' @ file @ nl) w)"

definition listJMXFiles :: "world \<Rightarrow> string list outcome \<times> world" where
  "listJMXFiles w =
     (case readDir w of
        Inl err \<Rightarrow>
          andThen (writeLog (''reading the directory failed: '' @ Error err) w) (\<lambda>_ w1.
            (Exit 1, Print (''cannot read the current directory'' @ nl) w1))
      | Inr entries \<Rightarrow>
          let jmxFiles = collectJMX entries in
          if length jmxFiles = 0 then
            andThen (writeLog ''no .jmx file found, exiting.'' w) (\<lambda>_ w1.
              (Exit 1, Print (''no .jmx file found in the current directory.'' @ nl) w1))
          else (Ret jmxFiles, printFiles 0 jmxFiles (Print (''available .jmx files:'' @ nl) w)))"

definition selectJMXFile :: "string list \<Rightarrow> world \<Rightarrow> string outcome \<times> world" where
  "selectJMXFile jmxFiles w =
     (case Scanln (Print ''number of the test file to run: '' w) of (choice, w1) \<Rightarrow>
        let invalid = andThen (writeLog (''invalid file number input: '' @ choice @ '', exiting.'') w1)
                        (\<lambda>_ w2. (Exit 1, Print (''invalid input, exiting.'' @ nl) w2))
        in case Atoi choice of
             Inl err \<Rightarrow> invalid
           | Inr index \<Rightarrow>
               if index < 1 \<or> index > int (length jmxFiles) then invalid
               else (Ret (jmxFiles ! nat (index - 1)), w1))"

definition getTimestamp :: "world \<Rightarrow> string \<times> world" where
  "getTimestamp w = (case Now w of (t, w1) \<Rightarrow> (formatStamp t, w1))"

definition getResultFilename :: "world \<Rightarrow> string \<times> world" where
  "getResultFilename w =
     (case Scanln (Print ''result file name (empty for a time stamp): '' w) of (input, w1) \<Rightarrow>
        let name = TrimSpace input in
        if name = [] then
          (case getTimestamp w1 of (timestamp, w2) \<Rightarrow>
             let name = ''result_'' @ timestamp @ ''.jtl'' in
             (Join [jtlDir, name], Print (''generated result file name: '' @ name @ nl) w2))
        else if \<not> HasSuffix name ''.jtl'' then (Join [jtlDir, name @ ''.jtl''], w1)
        else (Join [jtlDir, name], w1))"



section \<open>Documents read after a run\<close>

text \<open>
  An XML document as \<open>xmlquery.Parse\<close> builds it: elements with their attributes and
  children, text (character data included), comments, and the remaining node kinds
  (declaration, processing instruction), which have no children.
\<close>

datatype xml =
    Element string "(string \<times> string) list" "xml list"
  | TextNode string
  | CommentNode string
  | OtherNode string

text \<open>A JSON value as the decoder scans it: a number keeps its literal, an object its
  members in the order of the text.\<close>

datatype json =
    JNull
  | JBool bool
  | JNumber string
  | JString string
  | JArray "json list"
  | JObject "(string \<times> json) list"

text \<open>
  The library functions the program calls and that are taken as given: the XML parser,
  the JSON scanner (\<open>None\<close> on a syntax error) and the message of the syntax error
  it reports for a text it rejects, \<open>strconv.ParseFloat(s, 64)\<close> on a
  number literal (\<open>None\<close> when out of range), the zero of \<open>float64\<close>, the rendering of
  a \<open>float64\<close> by \<open>%.2f\<close>, and the rendering by \<open>%.2f\<close> of the seconds elapsed
  between two readings of the clock. \<open>'f\<close> stands for \<open>float64\<close>.
\<close>

record 'f golib =
  xmlParse :: "string \<Rightarrow> error + xml list"
  jsonScan :: "string \<Rightarrow> json option"
  jsonError :: "string \<Rightarrow> string"
  ParseFloat :: "string \<Rightarrow> 'f option"
  zeroFloat :: "'f"
  sprintf2f :: "'f \<Rightarrow> string"
  secondsText :: "gotime \<Rightarrow> gotime \<Rightarrow> string"

text \<open>\<open>node.InnerText()\<close>: the text of the node and of its descendants, comments left
  out.\<close>

fun InnerText :: "xml \<Rightarrow> string" and InnerTexts :: "xml list \<Rightarrow> string" where
  "InnerText (Element name attrs children) = InnerTexts children"
| "InnerText (TextNode d) = d"
| "InnerText (CommentNode d) = []"
| "InnerText (OtherNode d) = []"
| "InnerTexts [] = []"
| "InnerTexts (n # ns) = InnerText n @ InnerTexts ns"

text \<open>
  \<open>xmlquery.FindOne(doc, "//intProp[@name='ThreadGroup.num_threads']")\<close>: the first
  node, in document order, that is an element named \<open>intProp\<close> with an attribute
  \<open>name\<close> of that value; \<open>None\<close> is the nil node.
\<close>

definition isThreadsProp :: "string \<Rightarrow> (string \<times> string) list \<Rightarrow> bool" where
  "isThreadsProp name attrs \<longleftrightarrow>
     name = ''intProp'' \<and> (''name'', ''ThreadGroup.num_threads'') \<in> set attrs"

fun FindOne :: "xml \<Rightarrow> xml option" and FindOnes :: "xml list \<Rightarrow> xml option" where
  "FindOne (Element name attrs children) =
     (if isThreadsProp name attrs then Some (Element name attrs children)
      else FindOnes children)"
| "FindOne (TextNode d) = None"
| "FindOne (CommentNode d) = None"
| "FindOne (OtherNode d) = None"
| "FindOnes [] = None"
| "FindOnes (n # ns) = (case FindOne n of Some m \<Rightarrow> Some m | None \<Rightarrow> FindOnes ns)"

definition parseThreadCount :: "'f golib \<Rightarrow> string \<Rightarrow> world \<Rightarrow> int outcome \<times> world" where
  "parseThreadCount lib jmxFile w =
     (case ReadFile jmxFile w of
        Inl err \<Rightarrow>
          andThen (writeLog (''reading the JMX file failed: '' @ Error err) w) (\<lambda>_ w1. (Ret 0, w1))
      | Inr data \<Rightarrow>
          (case xmlParse lib data of
             Inl err \<Rightarrow>
               andThen (writeLog (''parsing the XML failed: '' @ Error err) w) (\<lambda>_ w1. (Ret 0, w1))
           | Inr doc \<Rightarrow>
               (case FindOnes doc of
                  None \<Rightarrow>
                    andThen (writeLog ''thread count setting not found'' w) (\<lambda>_ w1. (Ret 0, w1))
                | Some node \<Rightarrow>
                    (case Atoi (InnerText node) of
                       Inl err \<Rightarrow>
                         andThen (writeLog (''converting the thread count failed: '' @ Error err) w)
                           (\<lambda>_ w1. (Ret 0, w1))
                     | Inr count \<Rightarrow> (Ret count, w)))))"

text \<open>The struct \<open>Statistics\<close>; its anonymous inner struct is the record \<open>totals\<close>.\<close>

record 'f totals =
  SampleCount :: int
  ErrorPct :: 'f
  MeanResTime :: 'f
  Throughput :: 'f
  Errorcount :: int

record 'f Statistics =
  Total :: "'f totals"

text \<open>The values an \<open>interface{}\<close> of the result map holds.\<close>

datatype 'f val = IntVal int | FloatVal 'f

text \<open>
  \<open>json.Unmarshal\<close> into a \<open>Statistics\<close>. A member of an object goes to the field
  whose name (the \<open>json\<close> tag) equals its key, or equals it after case folding, in which
  the two non-ASCII letters U+017F and U+212A count as \<open>s\<close> and \<open>k\<close>; other members
  are skipped. \<open>null\<close> leaves the target as it is. A value that does not fit the target
  (a number with a fraction or an exponent, or out of range, for an \<open>int\<close>; anything
  but a number for a number; anything but an object for a struct) leaves the target as it
  is and is the error \<open>Unmarshal\<close> returns, the first one if there are several.
\<close>

definition toUpper :: "char \<Rightarrow> char" where
  "toUpper c = (if 97 \<le> (of_char c :: nat) \<and> (of_char c :: nat) \<le> 122
                then char_of ((of_char c :: nat) - 32) else c)"

function foldName :: "string \<Rightarrow> string" where
  "foldName [] = []"
| "foldName (c # cs) =
     (if c = CHR 0xC5 \<and> take 1 cs = [CHR 0xBF] then CHR ''S'' # foldName (drop 1 cs)
      else if c = CHR 0xE2 \<and> take 2 cs = [CHR 0x84, CHR 0xAA] then CHR ''K'' # foldName (drop 2 cs)
      else toUpper c # foldName cs)"
  by pat_completeness auto
termination
  by (relation "measure length") auto

definition fieldMatch :: "string \<Rightarrow> string \<Rightarrow> bool" where
  "fieldMatch name key \<longleftrightarrow> key = name \<or> foldName key = foldName name"

fun jsonKind :: "json \<Rightarrow> string" where
  "jsonKind JNull = ''null''"
| "jsonKind (JBool b) = ''bool''"
| "jsonKind (JNumber s) = ''number '' @ s"
| "jsonKind (JString s) = ''string''"
| "jsonKind (JArray vs) = ''array''"
| "jsonKind (JObject ms) = ''object''"

definition saveError :: "error option \<Rightarrow> error \<Rightarrow> error option" where
  "saveError saved e = (case saved of None \<Rightarrow> Some e | Some e0 \<Rightarrow> Some e0)"

definition decodeInt :: "json \<Rightarrow> int \<times> error option \<Rightarrow> int \<times> error option" where
  "decodeInt v acc =
     (case acc of (old, saved) \<Rightarrow>
        (case v of
           JNull \<Rightarrow> (old, saved)
         | JNumber s \<Rightarrow>
             (case ParseInt ''ParseInt'' s of
                Inr n \<Rightarrow> (n, saved)
              | Inl e \<Rightarrow> (old, saveError saved (UnmarshalTypeError (jsonKind v) ''int'')))
         | _ \<Rightarrow> (old, saveError saved (UnmarshalTypeError (jsonKind v) ''int''))))"

definition decodeFloat :: "'f golib \<Rightarrow> json \<Rightarrow> 'f \<times> error option \<Rightarrow> 'f \<times> error option" where
  "decodeFloat lib v acc =
     (case acc of (old, saved) \<Rightarrow>
        (case v of
           JNull \<Rightarrow> (old, saved)
         | JNumber s \<Rightarrow>
             (case ParseFloat lib s of
                Some x \<Rightarrow> (x, saved)
              | None \<Rightarrow> (old, saveError saved (UnmarshalTypeError (jsonKind v) ''float64'')))
         | _ \<Rightarrow> (old, saveError saved (UnmarshalTypeError (jsonKind v) ''float64''))))"

definition decodeTotalsMember ::
  "'f golib \<Rightarrow> 'f totals \<times> error option \<Rightarrow> string \<times> json \<Rightarrow> 'f totals \<times> error option" where
  "decodeTotalsMember lib acc m =
     (case acc of (t, saved) \<Rightarrow> case m of (key, v) \<Rightarrow>
        if fieldMatch ''sampleCount'' key then
          (case decodeInt v (SampleCount t, saved) of (x, sv) \<Rightarrow> (t\<lparr>SampleCount := x\<rparr>, sv))
        else if fieldMatch ''errorPct'' key then
          (case decodeFloat lib v (ErrorPct t, saved) of (x, sv) \<Rightarrow> (t\<lparr>ErrorPct := x\<rparr>, sv))
        else if fieldMatch ''meanResTime'' key then
          (case decodeFloat lib v (MeanResTime t, saved) of (x, sv) \<Rightarrow> (t\<lparr>MeanResTime := x\<rparr>, sv))
        else if fieldMatch ''throughput'' key then
          (case decodeFloat lib v (Throughput t, saved) of (x, sv) \<Rightarrow> (t\<lparr>Throughput := x\<rparr>, sv))
        else if fieldMatch ''errorCount'' key then
          (case decodeInt v (Errorcount t, saved) of (x, sv) \<Rightarrow> (t\<lparr>Errorcount := x\<rparr>, sv))
        else (t, saved))"

definition decodeTotals ::
  "'f golib \<Rightarrow> json \<Rightarrow> 'f totals \<times> error option \<Rightarrow> 'f totals \<times> error option" where
  "decodeTotals lib v acc =
     (case v of
        JNull \<Rightarrow> acc
      | JObject ms \<Rightarrow> foldl (decodeTotalsMember lib) acc ms
      | _ \<Rightarrow> (fst acc, saveError (snd acc) (UnmarshalTypeError (jsonKind v) ''struct'')))"

definition decodeStatisticsMember ::
  "'f golib \<Rightarrow> 'f Statistics \<times> error option \<Rightarrow> string \<times> json
     \<Rightarrow> 'f Statistics \<times> error option" where
  "decodeStatisticsMember lib acc m =
     (case acc of (st, saved) \<Rightarrow> case m of (key, v) \<Rightarrow>
        if fieldMatch ''Total'' key then
          (case decodeTotals lib v (Total st, saved) of (t, sv) \<Rightarrow> (st\<lparr>Total := t\<rparr>, sv))
        else (st, saved))"

definition decodeStatistics ::
  "'f golib \<Rightarrow> json \<Rightarrow> 'f Statistics \<times> error option \<Rightarrow> 'f Statistics \<times> error option" where
  "decodeStatistics lib v acc =
     (case v of
        JNull \<Rightarrow> acc
      | JObject ms \<Rightarrow> foldl (decodeStatisticsMember lib) acc ms
      | _ \<Rightarrow> (fst acc, saveError (snd acc) (UnmarshalTypeError (jsonKind v) ''Statistics'')))"

text \<open>The zero value of \<open>Statistics\<close>, which \<open>var stats Statistics\<close> declares.\<close>

definition zeroStatistics :: "'f golib \<Rightarrow> 'f Statistics" where
  "zeroStatistics lib =
     \<lparr>Total = \<lparr>SampleCount = 0, ErrorPct = zeroFloat lib, MeanResTime = zeroFloat lib,
               Throughput = zeroFloat lib, Errorcount = 0\<rparr>\<rparr>"

definition Unmarshal :: "'f golib \<Rightarrow> string \<Rightarrow> 'f Statistics \<Rightarrow> error + 'f Statistics" where
  "Unmarshal lib data stats =
     (case jsonScan lib data of
        None \<Rightarrow> Inl (SyntaxError (jsonError lib data))
      | Some v \<Rightarrow>
          (case decodeStatistics lib v (stats, None) of
             (st, None) \<Rightarrow> Inr st
           | (st, Some e) \<Rightarrow> Inl e))"

definition parseStatistics ::
  "'f golib \<Rightarrow> string \<Rightarrow> world \<Rightarrow> error + (string \<rightharpoonup> 'f val)" where
  "parseStatistics lib reportFolder w =
     (let statFile = Join [reportFolder, ''statistics.json'']
      in case ReadFile statFile w of
           Inl err \<Rightarrow> Inl err
         | Inr data \<Rightarrow>
             (case Unmarshal lib data (zeroStatistics lib) of
                Inl err \<Rightarrow> Inl err
              | Inr stats \<Rightarrow>
                  Inr [''sampleCount'' \<mapsto> IntVal (SampleCount (Total stats)),
                       ''errorPct'' \<mapsto> FloatVal (ErrorPct (Total stats)),
                       ''meanResTime'' \<mapsto> FloatVal (MeanResTime (Total stats)),
                       ''throughput'' \<mapsto> FloatVal (Throughput (Total stats)),
                       ''Errorcount'' \<mapsto> IntVal (Errorcount (Total stats))]))"

section \<open>The run\<close>

text \<open>The type assertions \<open>stats[key].(float64)\<close> and \<open>stats[key].(int)\<close>.\<close>

definition asFloat :: "'f val option \<Rightarrow> 'f outcome" where
  "asFloat v = (case v of Some (FloatVal x) \<Rightarrow> Ret x | _ \<Rightarrow> panic)"

definition asInt :: "'f val option \<Rightarrow> int outcome" where
  "asInt v = (case v of Some (IntVal n) \<Rightarrow> Ret n | _ \<Rightarrow> panic)"

definition jmeterCommand :: "string \<Rightarrow> string \<Rightarrow> string \<Rightarrow> string \<Rightarrow> cmd" where
  "jmeterCommand jmxFile resultFile reportFolder debugFile =
     \<lparr>Path = ''jmeter'',
      Args = [''jmeter'', ''-n'', ''-t'', jmxFile, ''-l'', resultFile, ''-e'', ''-o'', reportFolder,
              ''-j'', debugFile],
      Stdout = None, Stderr = None\<rparr>"

definition logStatistics ::
  "'f golib \<Rightarrow> int \<Rightarrow> (string \<rightharpoonup> 'f val) \<Rightarrow> world \<Rightarrow> unit outcome \<times> world" where
  "logStatistics lib threadCount stats w =
     andThen (writeLog ''====== test statistics ======'' w) (\<lambda>_ w1.
     andThen (writeLog (''threads: '' @ itoa threadCount) w1) (\<lambda>_ w2.
     andThen (asFloat (stats ''errorPct''), w2) (\<lambda>errorPct w3.
     andThen (writeLog (''error rate: '' @ sprintf2f lib errorPct @ ''%'') w3) (\<lambda>_ w4.
     andThen (asFloat (stats ''throughput''), w4) (\<lambda>throughput w5.
     andThen (writeLog (''throughput: '' @ sprintf2f lib throughput) w5) (\<lambda>_ w6.
     andThen (asFloat (stats ''meanResTime''), w6) (\<lambda>meanResTime w7.
     andThen (writeLog (''response time: '' @ sprintf2f lib meanResTime @ '' ms'') w7) (\<lambda>_ w8.
     andThen (asInt (stats ''sampleCount''), w8) (\<lambda>sampleCount w9.
     andThen (writeLog (''requests: '' @ itoa sampleCount) w9) (\<lambda>_ w10.
     andThen (asInt (stats ''Errorcount''), w10) (\<lambda>errorCount w11.
     andThen (writeLog (''errors: '' @ itoa errorCount) w11) (\<lambda>_ w12.
     writeLog ''=========================='' w12))))))))))))"

definition runJMeter ::
  "'f golib \<Rightarrow> string \<Rightarrow> string \<Rightarrow> string \<Rightarrow> string \<Rightarrow> world \<Rightarrow> unit outcome \<times> world" where
  "runJMeter lib jmxFile resultFile reportFolder debugFile w =
     (let c = jmeterCommand jmxFile resultFile reportFolder debugFile in
      case Now w of (startTime, w1) \<Rightarrow>
        let cmdStr = joinStrings (Args c) '' '' in
        andThen (writeLog ''starting command:'' w1) (\<lambda>_ w2.
        andThen (writeLog cmdStr w2) (\<lambda>_ w3.
          case Run (c\<lparr>Stdout := Some OsStdout, Stderr := Some OsStderr\<rparr>)
                 (Print (nl @ ''running command:'' @ '' '' @ cmdStr @ nl) w3) of (err, w4) \<Rightarrow>
          case Now w4 of (endTime, w5) \<Rightarrow>
            let duration = secondsText lib startTime endTime in
            case err of
              Some e \<Rightarrow>
                andThen (writeLog (''command failed, took '' @ duration @ '' seconds. error: ''
                                    @ Error e) w5) (\<lambda>_ w6.
                  (Ret (), Print (''command failed, see the log file pmeter.log.'' @ nl) w6))
            | None \<Rightarrow>
                andThen (writeLog (''command succeeded, took '' @ duration @ '' seconds.'') w5)
                  (\<lambda>_ w6.
                andThen (parseThreadCount lib jmxFile w6) (\<lambda>threadCount w7.
                  case parseStatistics lib reportFolder w7 of
                    Inr stats \<Rightarrow> logStatistics lib threadCount stats w7
                  | Inl e \<Rightarrow> writeLog (''parsing the statistics failed: '' @ Error e) w7)))))"



text \<open>Whether \<open>ensureDir dir\<close> ends the process: the directory is reported absent and
  cannot be created.\<close>

definition mkdirFails :: "world \<Rightarrow> string \<Rightarrow> bool" where
  "mkdirFails w dir = (case statErr w dir of
                         None \<Rightarrow> False
                       | Some err \<Rightarrow> IsNotExist err \<and> mkdirErr w dir \<noteq> None)"

text \<open>A world for examples: nothing on disk or on standard input, every operation
  succeeds, the clock stands at 2024-05-17 09:03:07, and a command run succeeds without
  touching the files.\<close>

definition time0 :: gotime where
  "time0 = \<lparr>Year = 2024, Month = 5, Day = 17, Hour = 9, Minute = 3, Second = 7\<rparr>"

definition world0 :: world where
  "world0 = \<lparr>stdin = [], stdout = [], stderr = [], clock = (\<lambda>n. time0), ticks = 0,
             statErr = (\<lambda>p. None), files = (\<lambda>p. None), mkdirErr = (\<lambda>p. None),
             openErr = (\<lambda>p. None), writeErr = (\<lambda>p s. None), readErr = (\<lambda>p. None),
             readDir = Inr [], runCmd = (\<lambda>c fs. (None, fs)), spawned = []\<rparr>"

text \<open>Worlds in which one operation of the logger fails: creating the absent directory
  \<open>Debug\<close>, opening a file, writing to a file.\<close>

definition worldNoDebug :: world where
  "worldNoDebug =
     world0\<lparr>statErr := (\<lambda>p. if p = ''Debug'' then Some (PathError ''stat'' p NotExist) else None),
            mkdirErr := (\<lambda>p. if p = ''Debug'' then Some (PathError ''mkdir'' p Permission) else None)\<rparr>"

definition worldNoOpen :: world where
  "worldNoOpen = world0\<lparr>openErr := (\<lambda>p. Some (PathError ''open'' p Permission))\<rparr>"

definition worldNoWrite :: world where
  "worldNoWrite =
     world0\<lparr>writeErr := (\<lambda>p s. Some (0, PathError ''write'' p (OtherError ''no space left on device'')))\<rparr>"

text \<open>A world in which \<open>os.Stat\<close> fails on \<open>Debug\<close> with an error other than
  absence, and neither creating the directory nor opening a file below it would succeed.\<close>

definition worldStatLoop :: world where
  "worldStatLoop =
     world0\<lparr>statErr := (\<lambda>p. if p = ''Debug''
                then Some (PathError ''stat'' p (OtherError ''too many levels of symbolic links''))
                else None),
            mkdirErr := (\<lambda>p. if p = ''Debug''
                then Some (PathError ''mkdir'' p (OtherError ''too many levels of symbolic links''))
                else None),
            openErr := (\<lambda>p. Some (PathError ''open'' p (OtherError ''too many levels of symbolic links'')))\<rparr>"

text \<open>A directory listing with plan files, a name in upper case, a directory whose name
  ends in \<open>.jmx\<close>, and another file.\<close>

definition worldDir :: world where
  "worldDir = world0\<lparr>readDir := Inr [(''a.jmx'', False), (''b.JMX'', False), (''dir.jmx'', True),
                                     (''notes.txt'', False), (''z.jmx'', False)]\<rparr>"

definition worldNoList :: world where
  "worldNoList = world0\<lparr>readDir := Inl (PathError ''open'' ''.'' Permission)\<rparr>"

text \<open>Worlds in which the operator has typed a line at the first prompt.\<close>

definition worldTyped :: "string \<Rightarrow> world" where
  "worldTyped line = world0\<lparr>stdin := [line]\<rparr>"

text \<open>The nodes of a document in document order, and the test of the path expression.\<close>

fun nodesOf :: "xml \<Rightarrow> xml list" and nodesOfList :: "xml list \<Rightarrow> xml list" where
  "nodesOf (Element name attrs children) = Element name attrs children # nodesOfList children"
| "nodesOf (TextNode d) = [TextNode d]"
| "nodesOf (CommentNode d) = [CommentNode d]"
| "nodesOf (OtherNode d) = [OtherNode d]"
| "nodesOfList [] = []"
| "nodesOfList (n # ns) = nodesOf n @ nodesOfList ns"

fun isThreadsNode :: "xml \<Rightarrow> bool" where
  "isThreadsNode (Element name attrs children) = isThreadsProp name attrs"
| "isThreadsNode n = False"

text \<open>Test plans for examples, as text and as the documents the XML parser builds from
  them, and an XML parser that knows these plans.\<close>

definition planText :: string where
  "planText = ''<jmeterTestPlan version='1.2'><hashTree><ThreadGroup testname='users'>''
     @ ''<stringProp name='ThreadGroup.on_sample_error'>continue</stringProp>''
     @ ''<intProp name='ThreadGroup.num_threads'>7</intProp>''
     @ ''<intProp name='ThreadGroup.ramp_time'>1</intProp>''
     @ ''</ThreadGroup></hashTree></jmeterTestPlan>''"

definition planDoc :: "xml list" where
  "planDoc =
     [Element ''jmeterTestPlan'' [(''version'', ''1.2'')]
        [Element ''hashTree'' []
           [Element ''ThreadGroup'' [(''testname'', ''users'')]
              [Element ''stringProp'' [(''name'', ''ThreadGroup.on_sample_error'')] [TextNode ''continue''],
               Element ''intProp'' [(''name'', ''ThreadGroup.num_threads'')] [TextNode ''7''],
               Element ''intProp'' [(''name'', ''ThreadGroup.ramp_time'')] [TextNode ''1'']]]]]"

definition twoGroupsText :: string where
  "twoGroupsText = ''<jmeterTestPlan>''
     @ ''<ThreadGroup><intProp name='ThreadGroup.num_threads'>many</intProp></ThreadGroup>''
     @ ''<ThreadGroup><intProp name='ThreadGroup.num_threads'>7</intProp></ThreadGroup>''
     @ ''</jmeterTestPlan>''"

definition twoGroupsDoc :: "xml list" where
  "twoGroupsDoc =
     [Element ''jmeterTestPlan'' []
        [Element ''ThreadGroup'' []
           [Element ''intProp'' [(''name'', ''ThreadGroup.num_threads'')] [TextNode ''many'']],
         Element ''ThreadGroup'' []
           [Element ''intProp'' [(''name'', ''ThreadGroup.num_threads'')] [TextNode ''7'']]]]"

definition hugeText :: string where
  "hugeText = ''<jmeterTestPlan>''
     @ ''<intProp name='ThreadGroup.num_threads'>9223372036854775808</intProp>''
     @ ''</jmeterTestPlan>''"

definition hugeDoc :: "xml list" where
  "hugeDoc =
     [Element ''jmeterTestPlan'' []
        [Element ''intProp'' [(''name'', ''ThreadGroup.num_threads'')]
           [TextNode ''9223372036854775808'']]]"

definition noPropText :: string where
  "noPropText = ''<jmeterTestPlan><hashTree></hashTree></jmeterTestPlan>''"

definition noPropDoc :: "xml list" where
  "noPropDoc = [Element ''jmeterTestPlan'' [] [Element ''hashTree'' [] []]]"

definition xmlParse0 :: "string \<Rightarrow> error + xml list" where
  "xmlParse0 data =
     (if data = planText then Inr planDoc
      else if data = twoGroupsText then Inr twoGroupsDoc
      else if data = hugeText then Inr hugeDoc
      else if data = noPropText then Inr noPropDoc
      else Inl (SyntaxError ''XML syntax error''))"

text \<open>A working directory that holds these plans and a file that is not XML.\<close>

definition worldPlans :: world where
  "worldPlans =
     world0\<lparr>files := [''a.jmx'' \<mapsto> planText, ''two.jmx'' \<mapsto> twoGroupsText,
                      ''huge.jmx'' \<mapsto> hugeText, ''none.jmx'' \<mapsto> noPropText,
                      ''bad.jmx'' \<mapsto> ''<jmeterTestPlan>''],
            readDir := Inr [(''a.jmx'', False), (''bad.jmx'', False), (''huge.jmx'', False),
                            (''none.jmx'', False), (''two.jmx'', False)]\<rparr>"

text \<open>Statistics files for examples, as text and as the values the JSON scanner reads
  from them; a library whose scanner and parsers know the examples, with \<open>float64\<close>
  values given as rationals.\<close>

definition statsText :: string where
  \<open>statsText = ''{"Total":{"transaction":"Total","sampleCount":100,"errorCount":2,''
     @ ''"errorPct":2.5,"meanResTime":123.4,"throughput":50.0}}''\<close>

definition statsMembers :: "(string \<times> json) list" where
  "statsMembers =
     [(''transaction'', JString ''Total''), (''sampleCount'', JNumber ''100''),
      (''errorCount'', JNumber ''2''), (''errorPct'', JNumber ''2.5''),
      (''meanResTime'', JNumber ''123.4''), (''throughput'', JNumber ''50.0'')]"

definition statsJson :: json where
  "statsJson = JObject [(''Total'', JObject statsMembers)]"

definition partialText :: string where
  \<open>partialText = ''{"Total":{"sampleCount":100}}''\<close>

definition partialJson :: json where
  "partialJson = JObject [(''Total'', JObject [(''sampleCount'', JNumber ''100'')])]"

definition fractionText :: string where
  \<open>fractionText = ''{"Total":{"sampleCount":1.5}}''\<close>

definition fractionJson :: json where
  "fractionJson = JObject [(''Total'', JObject [(''sampleCount'', JNumber ''1.5'')])]"

definition jsonScan0 :: "string \<Rightarrow> json option" where
  "jsonScan0 data =
     (if data = statsText then Some statsJson
      else if data = partialText then Some partialJson
      else if data = fractionText then Some fractionJson
      else if data = ''{}'' then Some (JObject [])
      else if data = ''[]'' then Some (JArray [])
      else if data = ''null'' then Some JNull
      else None)"

definition jsonError0 :: "string \<Rightarrow> string" where
  "jsonError0 data =
     (if data = ''{'' then ''unexpected end of JSON input''
      else ''invalid character looking for beginning of value'')"

definition parseFloat0 :: "string \<Rightarrow> rat option" where
  "parseFloat0 s =
     (if s = ''2.5'' then Some (5 / 2)
      else if s = ''123.4'' then Some (617 / 5)
      else if s = ''50.0'' then Some 50
      else None)"

definition sprintf2f0 :: "rat \<Rightarrow> string" where
  "sprintf2f0 x =
     (if x = 5 / 2 then ''2.50''
      else if x = 617 / 5 then ''123.40''
      else if x = 50 then ''50.00''
      else ''0.00'')"

definition lib0 :: "rat golib" where
  "lib0 = \<lparr>xmlParse = xmlParse0, jsonScan = jsonScan0,
            jsonError = jsonError0, ParseFloat = parseFloat0,
            zeroFloat = 0, sprintf2f = sprintf2f0, secondsText = (\<lambda>t1 t2. ''0.00'')\<rparr>"

text \<open>
  The values of the members of an object that go to the field of a given name, in the
  order of the text, and what it takes for a value to be stored without an error: for an
  \<open>int\<close> a number that \<open>ParseInt\<close> accepts, for a \<open>float64\<close> a number that
  \<open>ParseFloat\<close> accepts, for a struct an object whose members fit their fields; and
  \<open>null\<close> for each of them.
\<close>

definition matching :: "string \<Rightarrow> (string \<times> json) list \<Rightarrow> json list" where
  "matching name ms = map snd (filter (\<lambda>m. fieldMatch name (fst m)) ms)"

definition intOK :: "json \<Rightarrow> bool" where
  "intOK v = (case v of
                JNull \<Rightarrow> True
              | JNumber s \<Rightarrow> (case ParseInt ''ParseInt'' s of Inr n \<Rightarrow> True | Inl e \<Rightarrow> False)
              | _ \<Rightarrow> False)"

definition floatOK :: "'f golib \<Rightarrow> json \<Rightarrow> bool" where
  "floatOK lib v = (case v of
                      JNull \<Rightarrow> True
                    | JNumber s \<Rightarrow> ParseFloat lib s \<noteq> None
                    | _ \<Rightarrow> False)"

definition totalsFit :: "'f golib \<Rightarrow> json \<Rightarrow> bool" where
  "totalsFit lib v =
     (case v of
        JNull \<Rightarrow> True
      | JObject ms \<Rightarrow>
          list_all intOK (matching ''sampleCount'' ms)
          \<and> list_all (floatOK lib) (matching ''errorPct'' ms)
          \<and> list_all (floatOK lib) (matching ''meanResTime'' ms)
          \<and> list_all (floatOK lib) (matching ''throughput'' ms)
          \<and> list_all intOK (matching ''errorCount'' ms)
      | _ \<Rightarrow> False)"

definition docFits :: "'f golib \<Rightarrow> json \<Rightarrow> bool" where
  "docFits lib v =
     (case v of
        JNull \<Rightarrow> True
      | JObject ms \<Rightarrow> list_all (totalsFit lib) (matching ''Total'' ms)
      | _ \<Rightarrow> False)"

definition memberFits :: "'f golib \<Rightarrow> string \<times> json \<Rightarrow> bool" where
  "memberFits lib m \<longleftrightarrow>
     (fieldMatch ''sampleCount'' (fst m) \<longrightarrow> intOK (snd m))
     \<and> (fieldMatch ''errorPct'' (fst m) \<longrightarrow> floatOK lib (snd m))
     \<and> (fieldMatch ''meanResTime'' (fst m) \<longrightarrow> floatOK lib (snd m))
     \<and> (fieldMatch ''throughput'' (fst m) \<longrightarrow> floatOK lib (snd m))
     \<and> (fieldMatch ''errorCount'' (fst m) \<longrightarrow> intOK (snd m))"

text \<open>Report folders for examples: a complete statistics file, one with a single field,
  one whose count has a fraction, an empty object, an array, \<open>null\<close>, a truncated
  file, and a folder without statistics file.\<close>

definition worldStats :: world where
  "worldStats =
     world0\<lparr>files := [''Reporter/r1/statistics.json'' \<mapsto> statsText,
                      ''Reporter/partial/statistics.json'' \<mapsto> partialText,
                      ''Reporter/fraction/statistics.json'' \<mapsto> fractionText,
                      ''Reporter/empty/statistics.json'' \<mapsto> ''{}'',
                      ''Reporter/array/statistics.json'' \<mapsto> ''[]'',
                      ''Reporter/null/statistics.json'' \<mapsto> ''null'',
                      ''Reporter/cut/statistics.json'' \<mapsto> ''{'']\<rparr>"

text \<open>
  For the exit status of the whole program: \<open>dirsOK\<close> says that no directory is both
  reported absent and impossible to create, so that \<open>ensureDir\<close> never ends the
  process; \<open>fatalInput\<close> collects the three conditions under which the scanner and the
  selection end it: the listing fails, no plan file is listed, or the word typed at the
  first prompt is not the number of a listed plan file.
\<close>

definition dirsOK :: "world \<Rightarrow> bool" where
  "dirsOK w \<longleftrightarrow> (\<forall>d. \<not> mkdirFails w d)"


text \<open>What the steps of the program leave alone: \<open>later w w'\<close> says that \<open>w'\<close> answers
  \<open>os.MkdirAll\<close> as \<open>w\<close> does and reports no directory absent that \<open>w\<close> reports
  present; \<open>exits1\<close> says that an outcome is a return or the exit status 1.\<close>

definition later :: "world \<Rightarrow> world \<Rightarrow> bool" where
  "later w w' \<longleftrightarrow> mkdirErr w' = mkdirErr w \<and> (\<forall>d. statErr w' d = statErr w d \<or> statErr w' d = None)"


fun isRet :: "'a outcome \<Rightarrow> bool" where
  "isRet (Ret x) = True"
| "isRet (Exit c) = False"

text \<open>Worlds for whole runs: the working directory holds the plans, and the operator
  types a selection and three names; in the second the command fails; in the third the
  directory \<open>Reporter\<close> is reported absent and cannot be created.\<close>

definition worldRun :: world where
  "worldRun = worldPlans\<lparr>stdin := [''1'', ''first'', ''report1'', ''debug1'']\<rparr>"

definition worldRunFails :: world where
  "worldRunFails = worldRun\<lparr>runCmd := (\<lambda>c fs. (Some (ExecError ''exit status 1''), fs))\<rparr>"


section \<open>Properties of the logger\<close>

declare utoa.simps [simp del]

lemma logFile_eq: "logFile = ''Debug/pmeter.log''"
  by (simp add: logFile_def debugDir_def Join_def Clean_def cleanStep_def)

lemma ensureDir_fst: "fst (ensureDir d w) = (if mkdirFails w d then Exit 1 else Ret ())"
  by (auto simp: ensureDir_def MkdirAll_def mkdirFails_def split: option.splits)

lemma ensureDir_mkdirErr: "mkdirErr (snd (ensureDir d w)) = mkdirErr w"
  by (auto simp: ensureDir_def MkdirAll_def logOutput_def Now_def split: option.splits)

lemma ensureDir_files: "files (snd (ensureDir d w)) = files w"
  by (auto simp: ensureDir_def MkdirAll_def logOutput_def Now_def split: option.splits)

lemma writeLog_fst: "fst (writeLog msg w) = (if mkdirFails w debugDir then Exit 1 else Ret ())"
  by (auto simp: writeLog_def Now_def andThen_def ensureDir_def MkdirAll_def mkdirFails_def
      OpenAppend_def WriteString_def logOutput_def split: option.splits prod.splits)

lemma writeLog_content:
  "content (snd (writeLog msg w)) logFile =
     content w logFile @
       (if mkdirFails w debugDir \<or> openErr w logFile \<noteq> None then []
        else case writeErr w logFile (logEntry (clock w (ticks w)) msg) of
               None \<Rightarrow> logEntry (clock w (ticks w)) msg
             | Some (n, e) \<Rightarrow> take n (logEntry (clock w (ticks w)) msg))"
  by (auto simp: writeLog_def Now_def andThen_def ensureDir_def MkdirAll_def mkdirFails_def
      OpenAppend_def WriteString_def logOutput_def content_def split: option.splits prod.splits)

lemma writeLog_other_files:
  "p \<noteq> logFile \<Longrightarrow> files (snd (writeLog msg w)) p = files w p"
  by (auto simp: writeLog_def Now_def andThen_def ensureDir_def MkdirAll_def mkdirFails_def
      OpenAppend_def WriteString_def logOutput_def content_def split: option.splits prod.splits)


lemma digit0: "digit 0 = CHR ''0''"
  by code_simp

lemma isDigit_digit: "d < 10 \<Longrightarrow> isDigit (digit d)"
  by (simp add: isDigit_def digit_def)

lemma utoa_1: "n < 10 \<Longrightarrow> utoa n = [digit n]"
  by (simp add: utoa.simps)

lemma utoa_2: "10 \<le> n \<Longrightarrow> n < 100 \<Longrightarrow> utoa n = [digit (n div 10), digit (n mod 10)]"
  by (subst utoa.simps) (simp add: utoa_1)

lemma utoa_3: "100 \<le> n \<Longrightarrow> n < 1000 \<Longrightarrow>
  utoa n = [digit (n div 100), digit (n div 10 mod 10), digit (n mod 10)]"
proof -
  assume a: "100 \<le> n" "n < 1000"
  have d: "n div 10 div 10 = n div 100" by (simp add: div_mult2_eq[symmetric])
  from a have "10 \<le> n div 10" "n div 10 < 100" by auto
  then have "utoa (n div 10) = [digit (n div 100), digit (n div 10 mod 10)]"
    using utoa_2[of "n div 10"] d by simp
  with a show ?thesis by (subst utoa.simps) simp
qed

lemma utoa_4: "1000 \<le> n \<Longrightarrow> n < 10000 \<Longrightarrow>
  utoa n = [digit (n div 1000), digit (n div 100 mod 10), digit (n div 10 mod 10), digit (n mod 10)]"
proof -
  assume a: "1000 \<le> n" "n < 10000"
  have d: "n div 10 div 100 = n div 1000" "n div 10 div 10 = n div 100"
    by (simp_all add: div_mult2_eq[symmetric])
  from a have "100 \<le> n div 10" "n div 10 < 1000" by auto
  then have "utoa (n div 10) = [digit (n div 1000), digit (n div 100 mod 10), digit (n div 10 mod 10)]"
    using utoa_3[of "n div 10"] d by simp
  with a show ?thesis by (subst utoa.simps) simp
qed

lemma rep2: "replicate 2 x = [x, x]" by (simp add: numeral_2_eq_2)
lemma rep3: "replicate 3 x = [x, x, x]" by (simp add: numeral_3_eq_3)

lemma pad2: "n < 100 \<Longrightarrow> pad 2 n = [digit (n div 10), digit (n mod 10)]"
  by (cases "n < 10") (simp_all add: pad_def utoa_1 utoa_2 digit0)

lemma pad4: "n < 10000 \<Longrightarrow>
  pad 4 n = [digit (n div 1000), digit (n div 100 mod 10), digit (n div 10 mod 10), digit (n mod 10)]"
proof -
  assume a: "n < 10000"
  consider "n < 10" | "10 \<le> n" "n < 100" | "100 \<le> n" "n < 1000" | "1000 \<le> n"
    by linarith
  then show ?thesis
  proof cases
    case 1 then show ?thesis by (simp add: pad_def utoa_1 rep3 digit0)
  next
    case 2 then show ?thesis by (simp add: pad_def utoa_2 rep2 digit0)
  next
    case 3 then show ?thesis by (simp add: pad_def utoa_3 digit0)
  next
    case 4 with a show ?thesis by (simp add: pad_def utoa_4)
  qed
qed

lemma isDigit_mod10: "isDigit (digit (n mod 10))"
  by (simp add: isDigit_digit)

lemma isDigit_div10: "n < 100 \<Longrightarrow> isDigit (digit (n div 10))"
proof -
  assume "n < 100"
  then have "n div 10 < 10" by (simp add: div_less_iff_less_mult)
  then show ?thesis by (rule isDigit_digit)
qed

lemma isDigit_div1000: "n < 10000 \<Longrightarrow> isDigit (digit (n div 1000))"
proof -
  assume "n < 10000"
  then have "n div 1000 < 10" by (simp add: div_less_iff_less_mult)
  then show ?thesis by (rule isDigit_digit)
qed

lemma formatLogTime_layout:
  "validTime t \<Longrightarrow> matchLayout ''dddd-dd-dd dd:dd:dd'' (formatLogTime t)"
  by (simp add: validTime_def formatLogTime_def pad2 pad4 isDigit_mod10 isDigit_div10 isDigit_div1000)

lemma formatStamp_layout:
  "validTime t \<Longrightarrow> matchLayout ''dddddddd_dddddd'' (formatStamp t)"
  by (simp add: validTime_def formatStamp_def pad2 pad4 isDigit_mod10 isDigit_div10 isDigit_div1000)

lemma formatLogTime_time0: "formatLogTime time0 = ''2024-05-17 09:03:07''"
  by code_simp

lemma formatStamp_time0: "formatStamp time0 = ''20240517_090307''"
  by code_simp

lemma formatStdLog_time0: "formatStdLog time0 = ''2024/05/17 09:03:07 ''"
  by code_simp

lemma validTime_time0: "validTime time0"
  by (simp add: validTime_def time0_def)

text \<open>
  Claim C9. A call of \<open>writeLog\<close> only appends to the debug log: whatever happens, the
  content the log file had before the call is a prefix of its content after the call
  (nothing is truncated or rewritten), and no other file changes. When the directory, the
  open and the write succeed, the content grows by exactly the one line
  \<open>[YYYY-MM-DD HH:MM:SS] message\<close> followed by a newline, the time stamp having that
  layout for every time of day with a four-digit year.
\<close>

theorem writeLog_appends:
  "prefix (content w logFile) (content (snd (writeLog msg w)) logFile)
   \<and> (\<forall>p. p \<noteq> logFile \<longrightarrow> files (snd (writeLog msg w)) p = files w p)
   \<and> (\<not> mkdirFails w debugDir \<and> openErr w logFile = None
        \<and> writeErr w logFile (logEntry (clock w (ticks w)) msg) = None
      \<longrightarrow> content (snd (writeLog msg w)) logFile
            = content w logFile @ ''['' @ formatLogTime (clock w (ticks w)) @ ''] '' @ msg @ nl)
   \<and> (validTime (clock w (ticks w))
      \<longrightarrow> matchLayout ''dddd-dd-dd dd:dd:dd'' (formatLogTime (clock w (ticks w))))"
proof (intro conjI allI impI)
  show "prefix (content w logFile) (content (snd (writeLog msg w)) logFile)"
    by (subst writeLog_content) simp
next
  fix p assume "p \<noteq> logFile"
  then show "files (snd (writeLog msg w)) p = files w p"
    by (rule writeLog_other_files)
next
  assume "\<not> mkdirFails w debugDir \<and> openErr w logFile = None
        \<and> writeErr w logFile (logEntry (clock w (ticks w)) msg) = None"
  then show "content (snd (writeLog msg w)) logFile
            = content w logFile @ ''['' @ formatLogTime (clock w (ticks w)) @ ''] '' @ msg @ nl"
    by (subst writeLog_content) (simp add: logEntry_def)
next
  assume "validTime (clock w (ticks w))"
  then show "matchLayout ''dddd-dd-dd dd:dd:dd'' (formatLogTime (clock w (ticks w)))"
    by (rule formatLogTime_layout)
qed

lemma world0_simps:
  "stdin world0 = []" "stdout world0 = []" "stderr world0 = []" "clock world0 n = time0"
  "ticks world0 = 0" "statErr world0 p = None" "files world0 p = None"
  "mkdirErr world0 p = None" "openErr world0 p = None" "writeErr world0 p s = None"
  "readErr world0 p = None" "readDir world0 = Inr []" "runCmd world0 c fs = (None, fs)"
  "spawned world0 = []"
  by (simp_all add: world0_def)

theorem writeLog_appends_witness:
  "\<not> mkdirFails world0 debugDir \<and> openErr world0 logFile = None
   \<and> writeErr world0 logFile (logEntry (clock world0 (ticks world0)) ''run'') = None
   \<and> validTime (clock world0 (ticks world0))
   \<and> content world0 logFile = []
   \<and> content (snd (writeLog ''run'' world0)) logFile = ''[2024-05-17 09:03:07] run'' @ nl
   \<and> matchLayout ''dddd-dd-dd dd:dd:dd'' ''2024-05-17 09:03:07''"
  using writeLog_appends [of world0 "''run''"]
  by (simp add: world0_simps mkdirFails_def content_def validTime_time0 formatLogTime_time0)

lemma writeLog_stderr:
  "stderr (snd (writeLog msg w)) =
     stderr w @
       (if mkdirFails w debugDir then
          formatStdLog (clock w (Suc (ticks w))) @ ''cannot create directory '' @ debugDir @ '': ''
            @ Error (the (mkdirErr w debugDir)) @ nl
        else case openErr w logFile of
               Some e \<Rightarrow> formatStdLog (clock w (Suc (ticks w))) @ ''cannot open log file: ''
                           @ Error e @ nl
             | None \<Rightarrow>
                 (case writeErr w logFile (logEntry (clock w (ticks w)) msg) of
                    Some (n, e) \<Rightarrow> formatStdLog (clock w (Suc (ticks w)))
                                    @ ''writing the log failed: '' @ Error e @ nl
                  | None \<Rightarrow> []))"
  by (auto simp: writeLog_def Now_def andThen_def ensureDir_def MkdirAll_def mkdirFails_def
      OpenAppend_def WriteString_def logOutput_def split: option.splits prod.splits)

text \<open>
  Claim C2 says that no failure inside \<open>writeLog\<close> ends the process. That fails when
  the log directory is reported absent and cannot be created: \<open>ensureDir\<close> then calls
  \<open>log.Fatalf\<close>, and the process ends with status 1.
\<close>

theorem writeLog_fatal_counterexample:
  "fst (writeLog ''run'' worldNoDebug) = Exit 1 \<and> fst (writeLog ''run'' worldNoDebug) \<noteq> Ret ()"
  by (simp add: writeLog_fst mkdirFails_def worldNoDebug_def debugDir_def world0_simps)

text \<open>
  Claim C2, amended. \<open>writeLog\<close> ends the process, with status 1, exactly when
  \<open>os.Stat\<close> reports the log directory absent (\<open>os.IsNotExist\<close>) and
  \<open>os.MkdirAll\<close> then fails; that failure is reported on the console. In every other
  case it returns normally, also when \<open>os.Stat\<close> fails with another error, after which
  no directory is created. A failure to open the log file, and a failure to write to it,
  are reported on the console (by the standard logger, on \<open>stderr\<close>) and
  \<open>writeLog\<close> returns.
\<close>

theorem writeLog_failures:
  "fst (writeLog msg w) = (if mkdirFails w debugDir then Exit 1 else Ret ())
   \<and> (\<not> mkdirFails w debugDir \<and> openErr w logFile = Some e
      \<longrightarrow> stderr (snd (writeLog msg w))
            = stderr w @ formatStdLog (clock w (Suc (ticks w))) @ ''cannot open log file: ''
                @ Error e @ nl)
   \<and> (\<not> mkdirFails w debugDir \<and> openErr w logFile = None
        \<and> writeErr w logFile (logEntry (clock w (ticks w)) msg) = Some (n, e)
      \<longrightarrow> stderr (snd (writeLog msg w))
            = stderr w @ formatStdLog (clock w (Suc (ticks w))) @ ''writing the log failed: ''
                @ Error e @ nl)
   \<and> (mkdirFails w debugDir \<and> mkdirErr w debugDir = Some e
      \<longrightarrow> stderr (snd (writeLog msg w))
            = stderr w @ formatStdLog (clock w (Suc (ticks w))) @ ''cannot create directory ''
                @ debugDir @ '': '' @ Error e @ nl)"
  by (simp add: writeLog_fst writeLog_stderr)

theorem writeLog_failures_witness:
  "(\<not> mkdirFails worldNoOpen debugDir
      \<and> openErr worldNoOpen logFile = Some (PathError ''open'' logFile Permission)
      \<and> fst (writeLog ''run'' worldNoOpen) = Ret ()
      \<and> stderr (snd (writeLog ''run'' worldNoOpen))
          = ''2024/05/17 09:03:07 cannot open log file: open Debug/pmeter.log: permission denied'' @ nl)
   \<and> (\<not> mkdirFails worldNoWrite debugDir \<and> openErr worldNoWrite logFile = None
      \<and> writeErr worldNoWrite logFile (logEntry (clock worldNoWrite (ticks worldNoWrite)) ''run'')
          = Some (0, PathError ''write'' logFile (OtherError ''no space left on device''))
      \<and> fst (writeLog ''run'' worldNoWrite) = Ret ()
      \<and> stderr (snd (writeLog ''run'' worldNoWrite))
          = ''2024/05/17 09:03:07 writing the log failed: write Debug/pmeter.log: no space left on device'' @ nl)
   \<and> (mkdirFails worldNoDebug debugDir
      \<and> mkdirErr worldNoDebug debugDir = Some (PathError ''mkdir'' ''Debug'' Permission)
      \<and> fst (writeLog ''run'' worldNoDebug) = Exit 1
      \<and> stderr (snd (writeLog ''run'' worldNoDebug))
          = ''2024/05/17 09:03:07 cannot create directory Debug: mkdir Debug: permission denied'' @ nl)
   \<and> (statErr worldStatLoop debugDir
          = Some (PathError ''stat'' ''Debug'' (OtherError ''too many levels of symbolic links''))
      \<and> mkdirErr worldStatLoop debugDir
          = Some (PathError ''mkdir'' ''Debug'' (OtherError ''too many levels of symbolic links''))
      \<and> \<not> mkdirFails worldStatLoop debugDir
      \<and> openErr worldStatLoop logFile
          = Some (PathError ''open'' logFile (OtherError ''too many levels of symbolic links''))
      \<and> fst (writeLog ''run'' worldStatLoop) = Ret ()
      \<and> stderr (snd (writeLog ''run'' worldStatLoop))
          = ''2024/05/17 09:03:07 cannot open log file: open Debug/pmeter.log: too many levels of symbolic links'' @ nl)"
  using writeLog_failures [of "''run''" worldNoOpen "PathError ''open'' logFile Permission"]
    writeLog_failures [of "''run''" worldStatLoop
      "PathError ''open'' logFile (OtherError ''too many levels of symbolic links'')"]
    writeLog_failures [of "''run''" worldNoWrite "PathError ''write'' logFile (OtherError ''no space left on device'')" 0]
    writeLog_failures [of "''run''" worldNoDebug "PathError ''mkdir'' ''Debug'' Permission"]
  by (simp add: worldNoOpen_def worldNoWrite_def worldNoDebug_def worldStatLoop_def world0_simps
      mkdirFails_def debugDir_def logFile_eq formatStdLog_time0)

lemma Print_simps:
  "stdout (Print s w) = stdout w @ s" "stderr (Print s w) = stderr w" "files (Print s w) = files w"
  "stdin (Print s w) = stdin w" "mkdirErr (Print s w) = mkdirErr w" "statErr (Print s w) = statErr w"
  "openErr (Print s w) = openErr w" "writeErr (Print s w) = writeErr w" "clock (Print s w) = clock w"
  "ticks (Print s w) = ticks w" "readErr (Print s w) = readErr w" "readDir (Print s w) = readDir w"
  "runCmd (Print s w) = runCmd w" "spawned (Print s w) = spawned w"
  by (simp_all add: Print_def)

lemma content_Print: "content (Print s w) p = content w p"
  by (simp add: content_def Print_simps)

lemma mkdirFails_Print: "mkdirFails (Print s w) d = mkdirFails w d"
  by (simp add: mkdirFails_def Print_simps split: option.splits)

lemma writeLog_stdout: "stdout (snd (writeLog msg w)) = stdout w"
  by (auto simp: writeLog_def Now_def andThen_def ensureDir_def MkdirAll_def
      OpenAppend_def WriteString_def logOutput_def split: option.splits prod.splits)

lemma andThen_writeLog_Exit:
  "andThen (writeLog msg w) (\<lambda>u w1. (Exit 1, f w1)) =
     (Exit 1, if mkdirFails w debugDir then snd (writeLog msg w) else f (snd (writeLog msg w)))"
  using writeLog_fst [of msg w]
  by (cases "writeLog msg w") (auto simp: andThen_def split: outcome.splits if_splits)

lemma collectJMX_filter:
  "collectJMX entries = map fst (filter (\<lambda>(name, isDir). \<not> isDir \<and> HasSuffix name ''.jmx'') entries)"
  by (induction entries rule: collectJMX.induct) auto

lemma HasSuffix_suffix: "HasSuffix s suf \<longleftrightarrow> suffix suf s"
proof
  assume "HasSuffix s suf"
  then have "s = take (length s - length suf) s @ suf"
    by (metis HasSuffix_def append_take_drop_id)
  then show "suffix suf s" by (metis suffixI)
next
  assume "suffix suf s"
  then obtain zs where "s = zs @ suf" by (auto simp: suffix_def)
  then show "HasSuffix s suf" by (simp add: HasSuffix_def)
qed

text \<open>
  Claim C4. The scanner returns exactly the names of the entries of the listing that are
  not directories and whose name ends with the bytes \<open>.jmx\<close> (the comparison is
  case-sensitive), in the order of the listing; only the immediate entries, which
  \<open>ReadDir(".")\<close> returns, are looked at. When the listing fails or no entry
  qualifies, the process ends with status 1 after \<open>writeLog\<close> has been called with the
  condition, and a diagnostic is printed: the scanner's on standard output, or, when the
  logger ends the process because the log directory cannot be created, the logger's on
  \<open>stderr\<close>.
\<close>

theorem listJMXFiles_spec:
  "collectJMX entries
     = map fst (filter (\<lambda>(name, isDir). \<not> isDir \<and> suffix ''.jmx'' name) entries)
   \<and> (readDir w = Inr entries \<and> collectJMX entries \<noteq> []
      \<longrightarrow> fst (listJMXFiles w) = Ret (collectJMX entries))
   \<and> (readDir w = Inl e \<or> (readDir w = Inr entries \<and> collectJMX entries = [])
      \<longrightarrow> fst (listJMXFiles w) = Exit 1
          \<and> (let msg = (if readDir w = Inl e then ''reading the directory failed: '' @ Error e
                         else ''no .jmx file found, exiting.'');
                  diag = (if readDir w = Inl e then ''cannot read the current directory''
                          else ''no .jmx file found in the current directory.'')
              in content (snd (listJMXFiles w)) logFile = content (snd (writeLog msg w)) logFile
                 \<and> (\<not> mkdirFails w debugDir
                      \<longrightarrow> stdout (snd (listJMXFiles w)) = stdout w @ diag @ nl)
                 \<and> (mkdirFails w debugDir
                      \<longrightarrow> stderr (snd (listJMXFiles w)) = stderr (snd (writeLog msg w))
                          \<and> stderr (snd (listJMXFiles w)) \<noteq> stderr w)))"
proof (intro conjI impI)
  show "collectJMX entries
     = map fst (filter (\<lambda>(name, isDir). \<not> isDir \<and> suffix ''.jmx'' name) entries)"
    by (simp add: collectJMX_filter HasSuffix_suffix)
next
  assume "readDir w = Inr entries \<and> collectJMX entries \<noteq> []"
  then show "fst (listJMXFiles w) = Ret (collectJMX entries)"
    by (simp add: listJMXFiles_def Let_def)
next
  assume a: "readDir w = Inl e \<or> (readDir w = Inr entries \<and> collectJMX entries = [])"
  then show "fst (listJMXFiles w) = Exit 1"
    by (auto simp: listJMXFiles_def andThen_writeLog_Exit)
next
  assume a: "readDir w = Inl e \<or> (readDir w = Inr entries \<and> collectJMX entries = [])"
  have nonempty: "\<And>t x y. formatStdLog t @ x @ y \<noteq> []"
    by (simp add: formatStdLog_def)
  from a show "let msg = (if readDir w = Inl e then ''reading the directory failed: '' @ Error e
                         else ''no .jmx file found, exiting.'');
                  diag = (if readDir w = Inl e then ''cannot read the current directory''
                          else ''no .jmx file found in the current directory.'')
              in content (snd (listJMXFiles w)) logFile = content (snd (writeLog msg w)) logFile
                 \<and> (\<not> mkdirFails w debugDir
                      \<longrightarrow> stdout (snd (listJMXFiles w)) = stdout w @ diag @ nl)
                 \<and> (mkdirFails w debugDir
                      \<longrightarrow> stderr (snd (listJMXFiles w)) = stderr (snd (writeLog msg w))
                          \<and> stderr (snd (listJMXFiles w)) \<noteq> stderr w)"
    by (auto simp: listJMXFiles_def andThen_writeLog_Exit content_Print Print_simps
        writeLog_stdout writeLog_stderr nonempty Let_def)
qed

lemma logEntry_time0: "logEntry time0 msg = ''[2024-05-17 09:03:07] '' @ msg @ nl"
  by (simp add: logEntry_def formatLogTime_time0)

theorem listJMXFiles_spec_witness:
  "(readDir worldDir = Inr [(''a.jmx'', False), (''b.JMX'', False), (''dir.jmx'', True),
                            (''notes.txt'', False), (''z.jmx'', False)]
      \<and> fst (listJMXFiles worldDir) = Ret [''a.jmx'', ''z.jmx''])
   \<and> (readDir world0 = Inr [] \<and> \<not> mkdirFails world0 debugDir
      \<and> fst (listJMXFiles world0) = Exit 1
      \<and> stdout (snd (listJMXFiles world0)) = ''no .jmx file found in the current directory.'' @ nl
      \<and> content (snd (listJMXFiles world0)) logFile
          = ''[2024-05-17 09:03:07] no .jmx file found, exiting.'' @ nl)
   \<and> (readDir worldNoList = Inl (PathError ''open'' ''.'' Permission)
      \<and> fst (listJMXFiles worldNoList) = Exit 1
      \<and> stdout (snd (listJMXFiles worldNoList)) = ''cannot read the current directory'' @ nl)
   \<and> (mkdirFails worldNoDebug debugDir
      \<and> fst (listJMXFiles worldNoDebug) = Exit 1
      \<and> stderr (snd (listJMXFiles worldNoDebug))
          = ''2024/05/17 09:03:07 cannot create directory Debug: mkdir Debug: permission denied'' @ nl)"
proof -
  let ?es = "[(''a.jmx'', False), (''b.JMX'', False), (''dir.jmx'', True),
              (''notes.txt'', False), (''z.jmx'', False)]"
  have c1: "collectJMX ?es = [''a.jmx'', ''z.jmx'']"
    by (simp add: HasSuffix_def)
  have r1: "readDir worldDir = Inr ?es"
    by (simp add: worldDir_def)
  have p1: "fst (listJMXFiles worldDir) = Ret [''a.jmx'', ''z.jmx'']"
    using listJMXFiles_spec [of ?es worldDir undefined] r1 c1 by simp
  have m0: "\<not> mkdirFails world0 debugDir"
    by (simp add: mkdirFails_def world0_simps)
  have l0: "content (snd (writeLog ''no .jmx file found, exiting.'' world0)) logFile
              = ''[2024-05-17 09:03:07] no .jmx file found, exiting.'' @ nl"
    by (subst writeLog_content) (simp add: m0 world0_simps logEntry_time0 content_def)
  have p2: "fst (listJMXFiles world0) = Exit 1
      \<and> stdout (snd (listJMXFiles world0)) = ''no .jmx file found in the current directory.'' @ nl
      \<and> content (snd (listJMXFiles world0)) logFile
          = ''[2024-05-17 09:03:07] no .jmx file found, exiting.'' @ nl"
    using listJMXFiles_spec [of "[]" world0 undefined] m0 l0
    by (simp add: world0_simps Let_def)
  have r3: "readDir worldNoList = Inl (PathError ''open'' ''.'' Permission)"
    by (simp add: worldNoList_def)
  have m3: "\<not> mkdirFails worldNoList debugDir"
    by (simp add: mkdirFails_def worldNoList_def world0_simps)
  have p3: "fst (listJMXFiles worldNoList) = Exit 1
      \<and> stdout (snd (listJMXFiles worldNoList)) = ''cannot read the current directory'' @ nl"
    using listJMXFiles_spec [of undefined worldNoList "PathError ''open'' ''.'' Permission"] r3 m3
    by (simp add: Let_def worldNoList_def world0_simps)
  have m4: "mkdirFails worldNoDebug debugDir"
    by (simp add: mkdirFails_def worldNoDebug_def debugDir_def)
  have r4: "readDir worldNoDebug = Inr []"
    by (simp add: worldNoDebug_def world0_simps)
  have s4: "stderr (snd (writeLog ''no .jmx file found, exiting.'' worldNoDebug))
          = ''2024/05/17 09:03:07 cannot create directory Debug: mkdir Debug: permission denied'' @ nl"
    by (simp add: writeLog_stderr m4)
       (simp add: worldNoDebug_def world0_simps debugDir_def formatStdLog_time0)
  have p4: "fst (listJMXFiles worldNoDebug) = Exit 1
      \<and> stderr (snd (listJMXFiles worldNoDebug))
          = ''2024/05/17 09:03:07 cannot create directory Debug: mkdir Debug: permission denied'' @ nl"
    using listJMXFiles_spec [of "[]" worldNoDebug undefined] r4 m4 s4
    by (simp add: Let_def)
  from r1 p1 m0 p2 r3 p3 m4 p4 show ?thesis
    by (simp add: world0_simps)
qed

lemma Scanln_simps:
  "stdout (snd (Scanln w)) = stdout w" "stderr (snd (Scanln w)) = stderr w"
  "files (snd (Scanln w)) = files w" "mkdirErr (snd (Scanln w)) = mkdirErr w"
  "statErr (snd (Scanln w)) = statErr w" "openErr (snd (Scanln w)) = openErr w"
  "writeErr (snd (Scanln w)) = writeErr w" "clock (snd (Scanln w)) = clock w"
  "ticks (snd (Scanln w)) = ticks w" "readErr (snd (Scanln w)) = readErr w"
  "readDir (snd (Scanln w)) = readDir w" "runCmd (snd (Scanln w)) = runCmd w"
  "spawned (snd (Scanln w)) = spawned w"
  by (simp_all add: Scanln_def split: list.splits)

lemma Scanln_Print: "fst (Scanln (Print s w)) = fst (Scanln w)"
  by (simp add: Scanln_def Print_simps split: list.splits)

lemma content_Scanln: "content (snd (Scanln w)) p = content w p"
  by (simp add: content_def Scanln_simps)

lemma mkdirFails_Scanln: "mkdirFails (snd (Scanln w)) d = mkdirFails w d"
  by (simp add: mkdirFails_def Scanln_simps split: option.splits)

lemma digitsVal_snoc: "digitsVal (ds @ [c]) = 10 * digitsVal ds + (of_char c - 48)"
  by (simp add: digitsVal_def)

lemma of_char_digit: "d < 10 \<Longrightarrow> (of_char (digit d) :: nat) = 48 + d"
  by (simp add: digit_def)

lemma utoa_digits: "list_all isDigit (utoa n) \<and> utoa n \<noteq> [] \<and> digitsVal (utoa n) = n"
proof (induction n rule: utoa.induct)
  case (1 n)
  show ?case
  proof (cases "n < 10")
    case True
    then show ?thesis
      by (simp add: utoa_1 isDigit_digit digitsVal_def of_char_digit)
  next
    case False
    then have u: "utoa n = utoa (n div 10) @ [digit (n mod 10)]"
      by (subst utoa.simps) simp
    from False 1 have ih: "list_all isDigit (utoa (n div 10))" "digitsVal (utoa (n div 10)) = n div 10"
      by simp_all
    show ?thesis
      by (simp add: u ih digitsVal_snoc isDigit_mod10 of_char_digit)
  qed
qed

lemma isDigit_not_sign: "isDigit c \<Longrightarrow> c \<noteq> CHR ''+'' \<and> c \<noteq> CHR ''-''"
  by (auto simp: isDigit_def)

lemma Atoi_utoa: "int n < 2 ^ 63 \<Longrightarrow> Atoi (utoa n) = Inr (int n)"
proof -
  assume r: "int n < 2 ^ 63"
  have d: "list_all isDigit (utoa n)" "utoa n \<noteq> []" "digitsVal (utoa n) = n"
    using utoa_digits [of n] by simp_all
  then have "isDigit (hd (utoa n))" by (cases "utoa n") simp_all
  then have h: "hd (utoa n) \<noteq> CHR ''+''" "hd (utoa n) \<noteq> CHR ''-''"
    using isDigit_not_sign by blast+
  have "- (2 ^ 63) \<le> int n" by (rule order_trans [of _ 0]) simp_all
  with r d h show ?thesis
    by (simp add: Atoi_def ParseInt_def Let_def)
qed

lemma selectJMXFile_invalid:
  assumes "(\<exists>e. Atoi (fst (Scanln w)) = Inl e)
           \<or> (Atoi (fst (Scanln w)) = Inr i \<and> (i < 1 \<or> int (length jmxFiles) < i))"
  shows "selectJMXFile jmxFiles w =
           andThen (writeLog (''invalid file number input: '' @ fst (Scanln w) @ '', exiting.'')
                      (snd (Scanln (Print ''number of the test file to run: '' w))))
             (\<lambda>u w2. (Exit 1, Print (''invalid input, exiting.'' @ nl) w2))"
  using assms
  by (auto simp: selectJMXFile_def Scanln_Print Let_def case_prod_beta split: sum.splits)

text \<open>
  Claim C6. The word read at the selection prompt is parsed by \<open>strconv.Atoi\<close> as a
  1-based index into the discovered files. When it parses to an index between 1 and the
  length of the list, the file at that position is returned; the decimal numeral of every
  such position is accepted. When parsing fails or the index is below 1 or above the
  length, \<open>writeLog\<close> is called with the condition, a message is printed and the process
  ends with status 1 (the logger's own message, on \<open>stderr\<close>, when the logger ends the
  process because the log directory cannot be created).
\<close>

theorem selectJMXFile_spec:
  "(Atoi (fst (Scanln w)) = Inr i \<and> 1 \<le> i \<and> i \<le> int (length jmxFiles)
      \<longrightarrow> fst (selectJMXFile jmxFiles w) = Ret (jmxFiles ! nat (i - 1)))
   \<and> (1 \<le> k \<and> k \<le> length jmxFiles \<and> int k < 2 ^ 63 \<and> fst (Scanln w) = utoa k
      \<longrightarrow> fst (selectJMXFile jmxFiles w) = Ret (jmxFiles ! (k - 1)))
   \<and> ((\<exists>e. Atoi (fst (Scanln w)) = Inl e)
        \<or> (Atoi (fst (Scanln w)) = Inr i \<and> (i < 1 \<or> int (length jmxFiles) < i))
      \<longrightarrow> fst (selectJMXFile jmxFiles w) = Exit 1
          \<and> (\<not> mkdirFails w debugDir
               \<longrightarrow> stdout (snd (selectJMXFile jmxFiles w))
                     = stdout w @ ''number of the test file to run: '' @ ''invalid input, exiting.'' @ nl)
          \<and> (\<not> mkdirFails w debugDir \<and> openErr w logFile = None
               \<and> writeErr w logFile (logEntry (clock w (ticks w))
                    (''invalid file number input: '' @ fst (Scanln w) @ '', exiting.'')) = None
               \<longrightarrow> content (snd (selectJMXFile jmxFiles w)) logFile
                     = content w logFile @ logEntry (clock w (ticks w))
                         (''invalid file number input: '' @ fst (Scanln w) @ '', exiting.''))
          \<and> (mkdirFails w debugDir \<longrightarrow> stderr (snd (selectJMXFile jmxFiles w)) \<noteq> stderr w))"
proof (intro conjI)
  show "Atoi (fst (Scanln w)) = Inr i \<and> 1 \<le> i \<and> i \<le> int (length jmxFiles)
      \<longrightarrow> fst (selectJMXFile jmxFiles w) = Ret (jmxFiles ! nat (i - 1))"
    by (simp add: selectJMXFile_def Scanln_Print Let_def case_prod_beta)
next
  show "1 \<le> k \<and> k \<le> length jmxFiles \<and> int k < 2 ^ 63 \<and> fst (Scanln w) = utoa k
      \<longrightarrow> fst (selectJMXFile jmxFiles w) = Ret (jmxFiles ! (k - 1))"
  proof
    assume a: "1 \<le> k \<and> k \<le> length jmxFiles \<and> int k < 2 ^ 63 \<and> fst (Scanln w) = utoa k"
    then have "Atoi (fst (Scanln w)) = Inr (int k)" by (simp add: Atoi_utoa)
    moreover from a have "nat (int k - 1) = k - 1" by simp
    ultimately show "fst (selectJMXFile jmxFiles w) = Ret (jmxFiles ! (k - 1))"
      using a by (simp add: selectJMXFile_def Scanln_Print Let_def case_prod_beta)
  qed
next
  show "(\<exists>e. Atoi (fst (Scanln w)) = Inl e)
        \<or> (Atoi (fst (Scanln w)) = Inr i \<and> (i < 1 \<or> int (length jmxFiles) < i))
      \<longrightarrow> fst (selectJMXFile jmxFiles w) = Exit 1
          \<and> (\<not> mkdirFails w debugDir
               \<longrightarrow> stdout (snd (selectJMXFile jmxFiles w))
                     = stdout w @ ''number of the test file to run: '' @ ''invalid input, exiting.'' @ nl)
          \<and> (\<not> mkdirFails w debugDir \<and> openErr w logFile = None
               \<and> writeErr w logFile (logEntry (clock w (ticks w))
                    (''invalid file number input: '' @ fst (Scanln w) @ '', exiting.'')) = None
               \<longrightarrow> content (snd (selectJMXFile jmxFiles w)) logFile
                     = content w logFile @ logEntry (clock w (ticks w))
                         (''invalid file number input: '' @ fst (Scanln w) @ '', exiting.''))
          \<and> (mkdirFails w debugDir \<longrightarrow> stderr (snd (selectJMXFile jmxFiles w)) \<noteq> stderr w)"
  proof
    assume a: "(\<exists>e. Atoi (fst (Scanln w)) = Inl e)
        \<or> (Atoi (fst (Scanln w)) = Inr i \<and> (i < 1 \<or> int (length jmxFiles) < i))"
    have m: "mkdirFails (snd (Scanln (Print ''number of the test file to run: '' w))) debugDir
               = mkdirFails w debugDir"
      by (simp add: mkdirFails_Scanln mkdirFails_Print)
    have nonempty: "\<And>t x y. formatStdLog t @ x @ y \<noteq> []"
      by (simp add: formatStdLog_def)
    have 1: "fst (selectJMXFile jmxFiles w) = Exit 1"
      by (simp add: selectJMXFile_invalid [OF a] andThen_writeLog_Exit)
    have 2: "\<not> mkdirFails w debugDir
       \<longrightarrow> stdout (snd (selectJMXFile jmxFiles w))
             = stdout w @ ''number of the test file to run: '' @ ''invalid input, exiting.'' @ nl"
      by (simp add: selectJMXFile_invalid [OF a] andThen_writeLog_Exit m Print_simps
          writeLog_stdout Scanln_simps)
    have 3: "\<not> mkdirFails w debugDir \<and> openErr w logFile = None
               \<and> writeErr w logFile (logEntry (clock w (ticks w))
                    (''invalid file number input: '' @ fst (Scanln w) @ '', exiting.'')) = None
               \<longrightarrow> content (snd (selectJMXFile jmxFiles w)) logFile
                     = content w logFile @ logEntry (clock w (ticks w))
                         (''invalid file number input: '' @ fst (Scanln w) @ '', exiting.'')"
      by (simp add: selectJMXFile_invalid [OF a] andThen_writeLog_Exit m content_Print
          writeLog_content Scanln_simps Print_simps content_Scanln)
    have 4: "mkdirFails w debugDir \<longrightarrow> stderr (snd (selectJMXFile jmxFiles w)) \<noteq> stderr w"
      by (simp add: selectJMXFile_invalid [OF a] andThen_writeLog_Exit m writeLog_stderr
          Scanln_simps Print_simps nonempty)
    from 1 2 3 4 show "fst (selectJMXFile jmxFiles w) = Exit 1
          \<and> (\<not> mkdirFails w debugDir
               \<longrightarrow> stdout (snd (selectJMXFile jmxFiles w))
                     = stdout w @ ''number of the test file to run: '' @ ''invalid input, exiting.'' @ nl)
          \<and> (\<not> mkdirFails w debugDir \<and> openErr w logFile = None
               \<and> writeErr w logFile (logEntry (clock w (ticks w))
                    (''invalid file number input: '' @ fst (Scanln w) @ '', exiting.'')) = None
               \<longrightarrow> content (snd (selectJMXFile jmxFiles w)) logFile
                     = content w logFile @ logEntry (clock w (ticks w))
                         (''invalid file number input: '' @ fst (Scanln w) @ '', exiting.''))
          \<and> (mkdirFails w debugDir \<longrightarrow> stderr (snd (selectJMXFile jmxFiles w)) \<noteq> stderr w)"
      by blast
  qed
qed

lemma worldTyped_simps:
  "fst (Scanln (worldTyped line)) = line" "stdout (worldTyped line) = []"
  "stderr (worldTyped line) = []" "content (worldTyped line) p = []"
  "openErr (worldTyped line) p = None" "writeErr (worldTyped line) p s = None"
  "clock (worldTyped line) n = time0" "\<not> mkdirFails (worldTyped line) d"
  by (simp_all add: worldTyped_def Scanln_def world0_simps content_def mkdirFails_def)

theorem selectJMXFile_spec_witness:
  "(Atoi (fst (Scanln (worldTyped ''2''))) = Inr 2 \<and> (1::int) \<le> 2
      \<and> (2::int) \<le> int (length [''a.jmx'', ''z.jmx''])
      \<and> fst (selectJMXFile [''a.jmx'', ''z.jmx''] (worldTyped ''2'')) = Ret ''z.jmx'')
   \<and> (fst (Scanln (worldTyped ''1'')) = utoa 1
      \<and> fst (selectJMXFile [''a.jmx'', ''z.jmx''] (worldTyped ''1'')) = Ret ''a.jmx'')
   \<and> ((\<exists>e. Atoi (fst (Scanln (worldTyped ''two''))) = Inl e)
      \<and> fst (selectJMXFile [''a.jmx'', ''z.jmx''] (worldTyped ''two'')) = Exit 1
      \<and> stdout (snd (selectJMXFile [''a.jmx'', ''z.jmx''] (worldTyped ''two'')))
          = ''number of the test file to run: invalid input, exiting.'' @ nl
      \<and> content (snd (selectJMXFile [''a.jmx'', ''z.jmx''] (worldTyped ''two''))) logFile
          = ''[2024-05-17 09:03:07] invalid file number input: two, exiting.'' @ nl)
   \<and> (Atoi (fst (Scanln (worldTyped ''3''))) = Inr 3
      \<and> fst (selectJMXFile [''a.jmx'', ''z.jmx''] (worldTyped ''3'')) = Exit 1)
   \<and> (Atoi (fst (Scanln (worldTyped ''0''))) = Inr 0
      \<and> fst (selectJMXFile [''a.jmx'', ''z.jmx''] (worldTyped ''0'')) = Exit 1)
   \<and> (mkdirFails worldNoDebug debugDir
      \<and> fst (selectJMXFile [''a.jmx'', ''z.jmx''] worldNoDebug) = Exit 1
      \<and> stderr (snd (selectJMXFile [''a.jmx'', ''z.jmx''] worldNoDebug)) \<noteq> stderr worldNoDebug)"
proof -
  let ?fs = "[''a.jmx'', ''z.jmx'']"
  have a2: "Atoi ''2'' = Inr 2" and a3: "Atoi ''3'' = Inr 3" and a0: "Atoi ''0'' = Inr 0"
    and at: "Atoi ''two'' = Inl (NumError ''Atoi'' ''two'' ''invalid syntax'')"
    and ae: "Atoi [] = Inl (NumError ''Atoi'' [] ''invalid syntax'')"
    by (simp_all add: Atoi_def ParseInt_def Let_def isDigit_def digitsVal_def)
  have u1: "utoa 1 = ''1''" by code_simp
  have p1: "fst (selectJMXFile ?fs (worldTyped ''2'')) = Ret ''z.jmx''"
    using selectJMXFile_spec [of "worldTyped ''2''" 2 ?fs 0] a2
    by (simp add: worldTyped_simps)
  have p2: "fst (selectJMXFile ?fs (worldTyped ''1'')) = Ret ''a.jmx''"
    using selectJMXFile_spec [of "worldTyped ''1''" 0 ?fs 1] u1
    by (simp add: worldTyped_simps)
  have p3: "fst (selectJMXFile ?fs (worldTyped ''two'')) = Exit 1
      \<and> stdout (snd (selectJMXFile ?fs (worldTyped ''two'')))
          = ''number of the test file to run: invalid input, exiting.'' @ nl
      \<and> content (snd (selectJMXFile ?fs (worldTyped ''two''))) logFile
          = ''[2024-05-17 09:03:07] invalid file number input: two, exiting.'' @ nl"
    using selectJMXFile_spec [of "worldTyped ''two''" 0 ?fs 0] at
    by (simp add: worldTyped_simps logEntry_time0)
  have p4: "fst (selectJMXFile ?fs (worldTyped ''3'')) = Exit 1"
    using selectJMXFile_spec [of "worldTyped ''3''" 3 ?fs 0] a3
    by (simp add: worldTyped_simps)
  have p5: "fst (selectJMXFile ?fs (worldTyped ''0'')) = Exit 1"
    using selectJMXFile_spec [of "worldTyped ''0''" 0 ?fs 0] a0
    by (simp add: worldTyped_simps)
  have m6: "mkdirFails worldNoDebug debugDir"
    by (simp add: mkdirFails_def worldNoDebug_def debugDir_def)
  have s6: "fst (Scanln worldNoDebug) = []"
    by (simp add: Scanln_def worldNoDebug_def world0_simps)
  have p6: "fst (selectJMXFile ?fs worldNoDebug) = Exit 1
      \<and> stderr (snd (selectJMXFile ?fs worldNoDebug)) \<noteq> stderr worldNoDebug"
    using selectJMXFile_spec [of worldNoDebug 0 ?fs 0] ae m6 s6
    by simp
  from a2 a3 a0 at u1 p1 p2 p3 p4 p5 m6 p6 show ?thesis
    by (simp add: worldTyped_simps)
qed

declare trimLeft.simps [simp del] trimRight.simps [simp del]

lemma splitSlash_nonempty: "splitSlash s \<noteq> []"
  by (induction s) (auto split: list.splits)

lemma splitSlash_no_slash: "CHR ''/'' \<notin> set s \<Longrightarrow> splitSlash s = [s]"
  by (induction s) auto

lemma splitSlash_Cons:
  "c \<noteq> CHR ''/'' \<Longrightarrow> splitSlash (c # cs) = (c # hd (splitSlash cs)) # tl (splitSlash cs)"
  using splitSlash_nonempty [of cs] by (cases "splitSlash cs") auto

lemma splitSlash_Jtl: "splitSlash (''Jtl/'' @ s) = ''Jtl'' # splitSlash s"
  by (simp add: splitSlash_Cons)

lemma last_splitSlash:
  "s \<noteq> [] \<Longrightarrow> last s \<noteq> CHR ''/'' \<Longrightarrow>
     last (splitSlash s) \<noteq> [] \<and> last (last (splitSlash s)) = last s"
proof (induction s)
  case Nil
  then show ?case by simp
next
  case (Cons c cs)
  show ?case
  proof (cases "cs = []")
    case True
    with Cons.prems show ?thesis by simp
  next
    case False
    with Cons have ih: "last (splitSlash cs) \<noteq> []" "last (last (splitSlash cs)) = last cs"
      by simp_all
    show ?thesis
    proof (cases "c = CHR ''/''")
      case True
      with ih False show ?thesis by (simp add: splitSlash_nonempty)
    next
      case nc: False
      obtain x xs where x: "splitSlash cs = x # xs"
        using splitSlash_nonempty [of cs] by (cases "splitSlash cs") auto
      show ?thesis
      proof (cases "xs = []")
        case True
        with x ih nc False show ?thesis by simp
      next
        case nx: False
        with x ih nc False show ?thesis by simp
      qed
    qed
  qed
qed

lemma foldl_cleanStep_plain:
  "\<forall>c \<in> set cs. c \<noteq> ''..'' \<Longrightarrow>
     foldl (cleanStep r) acc cs = acc @ filter (\<lambda>c. c \<noteq> [] \<and> c \<noteq> ''.'') cs"
  by (induction cs arbitrary: acc) (auto simp: cleanStep_def)

lemma joinStrings_Cons_nonempty:
  "ys \<noteq> [] \<Longrightarrow> joinStrings (x # ys) sep = x @ sep @ joinStrings ys sep"
  by (cases ys) auto

lemma Join_Jtl_plain:
  assumes "n \<noteq> []" "CHR ''/'' \<notin> set n" "n \<noteq> ''.''" "n \<noteq> ''..''"
  shows "Join [jtlDir, n] = ''Jtl/'' @ n"
  using assms
  by (simp add: Join_def jtlDir_def Clean_def splitSlash_Cons splitSlash_no_slash cleanStep_def)

lemma Join_Jtl_under:
  assumes "n \<noteq> []" "last n \<noteq> CHR ''/''" "last n \<noteq> CHR ''.''"
    and "\<forall>c \<in> set (splitSlash n). c \<noteq> ''..''"
  shows "prefix ''Jtl/'' (Join [jtlDir, n])"
proof -
  let ?rest = "filter (\<lambda>c. c \<noteq> [] \<and> c \<noteq> ''.'') (splitSlash n)"
  have l: "last (splitSlash n) \<noteq> []" "last (last (splitSlash n)) = last n"
    using last_splitSlash [of n] assms by simp_all
  then have "last (splitSlash n) \<noteq> ''.''" using assms(3) by auto
  moreover have "last (splitSlash n) \<in> set (splitSlash n)"
    using splitSlash_nonempty [of n] by simp
  ultimately have "last (splitSlash n) \<in> set ?rest"
    using l by simp
  then have ne: "?rest \<noteq> []" by (metis empty_iff list.set(1))
  have "foldl (cleanStep False) [] (''Jtl'' # splitSlash n) = ''Jtl'' # ?rest"
    using assms(4) by (subst foldl_cleanStep_plain) auto
  then have "Join [jtlDir, n] = joinStrings (''Jtl'' # ?rest) ''/''"
    by (simp add: Join_def jtlDir_def Clean_def splitSlash_Cons del: foldl_Cons)
  also have "\<dots> = ''Jtl'' @ ''/'' @ joinStrings ?rest ''/''"
    using ne by (rule joinStrings_Cons_nonempty)
  finally show ?thesis by simp
qed

lemma isDigit_not_slash: "isDigit c \<Longrightarrow> c \<noteq> CHR ''/''"
  by (auto simp: isDigit_def)

lemma pad_digits: "list_all isDigit (pad k n)"
proof -
  have "isDigit CHR ''0''" by (simp add: isDigit_def)
  then show ?thesis
    using utoa_digits [of n] by (auto simp: pad_def list_all_iff)
qed

lemma pad_no_slash: "CHR ''/'' \<notin> set (pad k n)"
  using pad_digits [of k n] isDigit_not_slash by (auto simp: list_all_iff)

lemma formatStamp_no_slash: "CHR ''/'' \<notin> set (formatStamp t)"
  by (simp add: formatStamp_def pad_no_slash)

lemma getTimestamp_fst: "fst (getTimestamp w) = formatStamp (clock w (ticks w))"
  by (simp add: getTimestamp_def Now_def)

lemma HasSuffix_last:
  "HasSuffix s (a @ [c]) \<Longrightarrow> s \<noteq> [] \<and> last s = c"
  by (auto simp: HasSuffix_suffix suffix_def)

lemma getResultFilename_fst:
  "fst (getResultFilename w) =
     (let name = TrimSpace (fst (Scanln w)) in
      if name = [] then Join [jtlDir, ''result_'' @ formatStamp (clock w (ticks w)) @ ''.jtl'']
      else if \<not> HasSuffix name ''.jtl'' then Join [jtlDir, name @ ''.jtl'']
      else Join [jtlDir, name])"
  by (simp add: getResultFilename_def case_prod_beta Scanln_Print Let_def getTimestamp_fst
      Scanln_simps Print_simps)

text \<open>
  Claim C5 says that the result file always lies under the directory \<open>Jtl\<close>. The path
  is built by \<open>filepath.Join\<close>, which cleans it: for the input \<open>../x\<close> the result is
  \<open>x.jtl\<close>, outside \<open>Jtl\<close>.
\<close>

theorem getResultFilename_escapes_counterexample:
  "fst (getResultFilename (worldTyped ''../x'')) = ''x.jtl''
   \<and> \<not> prefix ''Jtl/'' (fst (getResultFilename (worldTyped ''../x'')))"
proof -
  have "fst (getResultFilename (worldTyped ''../x'')) = ''x.jtl''"
    by code_simp
  then show ?thesis by simp
qed

text \<open>
  Claim C5, amended. Let \<open>name\<close> be the word read at the prompt, trimmed. When it is
  empty the result is \<open>Jtl/result_<timestamp>.jtl\<close>, the time stamp having the layout
  \<open>YYYYMMDD_HHMMSS\<close>. When it is not empty and holds no path separator, the result is
  \<open>Jtl/<name>.jtl\<close> if the name does not end in \<open>.jtl\<close> (the suffix is appended once)
  and \<open>Jtl/<name>\<close> if it does. A name with separators is joined to \<open>Jtl\<close> and
  cleaned by \<open>filepath.Join\<close>; the result lies under \<open>Jtl\<close> whenever no component
  of the name is \<open>..\<close>.
\<close>

theorem getResultFilename_spec:
  assumes "name = TrimSpace (fst (Scanln w))"
  shows
  "(name = [] \<longrightarrow> fst (getResultFilename w)
                     = ''Jtl/result_'' @ formatStamp (clock w (ticks w)) @ ''.jtl'')
   \<and> (validTime (clock w (ticks w))
        \<longrightarrow> matchLayout ''dddddddd_dddddd'' (formatStamp (clock w (ticks w))))
   \<and> (name \<noteq> [] \<and> \<not> HasSuffix name ''.jtl'' \<and> CHR ''/'' \<notin> set name
        \<longrightarrow> fst (getResultFilename w) = ''Jtl/'' @ name @ ''.jtl'')
   \<and> (HasSuffix name ''.jtl'' \<and> CHR ''/'' \<notin> set name
        \<longrightarrow> fst (getResultFilename w) = ''Jtl/'' @ name)
   \<and> (name \<noteq> [] \<and> \<not> HasSuffix name ''.jtl'' \<and> (\<forall>c \<in> set (splitSlash (name @ ''.jtl'')). c \<noteq> ''..'')
        \<longrightarrow> prefix ''Jtl/'' (fst (getResultFilename w)))
   \<and> (HasSuffix name ''.jtl'' \<and> (\<forall>c \<in> set (splitSlash name). c \<noteq> ''..'')
        \<longrightarrow> prefix ''Jtl/'' (fst (getResultFilename w)))"
proof (intro conjI)
  have "Join [jtlDir, ''result_'' @ formatStamp (clock w (ticks w)) @ ''.jtl'']
          = ''Jtl/'' @ ''result_'' @ formatStamp (clock w (ticks w)) @ ''.jtl''"
    by (rule Join_Jtl_plain) (simp_all add: formatStamp_no_slash)
  then show "name = [] \<longrightarrow> fst (getResultFilename w)
                     = ''Jtl/result_'' @ formatStamp (clock w (ticks w)) @ ''.jtl''"
    using assms by (simp add: getResultFilename_fst)
next
  show "validTime (clock w (ticks w))
        \<longrightarrow> matchLayout ''dddddddd_dddddd'' (formatStamp (clock w (ticks w)))"
    by (simp add: formatStamp_layout)
next
  show "name \<noteq> [] \<and> \<not> HasSuffix name ''.jtl'' \<and> CHR ''/'' \<notin> set name
        \<longrightarrow> fst (getResultFilename w) = ''Jtl/'' @ name @ ''.jtl''"
  proof
    assume a: "name \<noteq> [] \<and> \<not> HasSuffix name ''.jtl'' \<and> CHR ''/'' \<notin> set name"
    then have "Join [jtlDir, name @ ''.jtl''] = ''Jtl/'' @ name @ ''.jtl''"
      by (intro Join_Jtl_plain) (auto simp: append_eq_Cons_conv)
    with a assms show "fst (getResultFilename w) = ''Jtl/'' @ name @ ''.jtl''"
      by (simp add: getResultFilename_fst)
  qed
next
  show "HasSuffix name ''.jtl'' \<and> CHR ''/'' \<notin> set name
        \<longrightarrow> fst (getResultFilename w) = ''Jtl/'' @ name"
  proof
    assume a: "HasSuffix name ''.jtl'' \<and> CHR ''/'' \<notin> set name"
    then have l: "name \<noteq> []" "last name = CHR ''l''"
      using HasSuffix_last [of name "''.jt''" "CHR ''l''"] by simp_all
    then have "name \<noteq> ''.''" "name \<noteq> ''..''" by auto
    with a l have "Join [jtlDir, name] = ''Jtl/'' @ name"
      by (intro Join_Jtl_plain) simp_all
    with a l assms show "fst (getResultFilename w) = ''Jtl/'' @ name"
      by (simp add: getResultFilename_fst)
  qed
next
  show "name \<noteq> [] \<and> \<not> HasSuffix name ''.jtl'' \<and> (\<forall>c \<in> set (splitSlash (name @ ''.jtl'')). c \<noteq> ''..'')
        \<longrightarrow> prefix ''Jtl/'' (fst (getResultFilename w))"
  proof
    assume a: "name \<noteq> [] \<and> \<not> HasSuffix name ''.jtl''
                 \<and> (\<forall>c \<in> set (splitSlash (name @ ''.jtl'')). c \<noteq> ''..'')"
    then have "prefix ''Jtl/'' (Join [jtlDir, name @ ''.jtl''])"
      by (intro Join_Jtl_under) simp_all
    with a assms show "prefix ''Jtl/'' (fst (getResultFilename w))"
      by (simp add: getResultFilename_fst)
  qed
next
  show "HasSuffix name ''.jtl'' \<and> (\<forall>c \<in> set (splitSlash name). c \<noteq> ''..'')
        \<longrightarrow> prefix ''Jtl/'' (fst (getResultFilename w))"
  proof
    assume a: "HasSuffix name ''.jtl'' \<and> (\<forall>c \<in> set (splitSlash name). c \<noteq> ''..'')"
    then have l: "name \<noteq> []" "last name = CHR ''l''"
      using HasSuffix_last [of name "''.jt''" "CHR ''l''"] by simp_all
    with a have "prefix ''Jtl/'' (Join [jtlDir, name])"
      by (intro Join_Jtl_under) simp_all
    with a l assms show "prefix ''Jtl/'' (fst (getResultFilename w))"
      by (simp add: getResultFilename_fst)
  qed
qed

theorem getResultFilename_spec_witness:
  "(TrimSpace (fst (Scanln (worldTyped '' ''))) = [] \<and> validTime (clock (worldTyped '' '') (ticks (worldTyped '' '')))
      \<and> fst (getResultFilename (worldTyped '' '')) = ''Jtl/result_20240517_090307.jtl''
      \<and> matchLayout ''dddddddd_dddddd'' ''20240517_090307'')
   \<and> (TrimSpace (fst (Scanln (worldTyped ''run1''))) = ''run1'' \<and> \<not> HasSuffix ''run1'' ''.jtl''
      \<and> CHR ''/'' \<notin> set ''run1''
      \<and> fst (getResultFilename (worldTyped ''run1'')) = ''Jtl/run1.jtl'')
   \<and> (TrimSpace (fst (Scanln (worldTyped ''run1.jtl''))) = ''run1.jtl'' \<and> HasSuffix ''run1.jtl'' ''.jtl''
      \<and> CHR ''/'' \<notin> set ''run1.jtl''
      \<and> fst (getResultFilename (worldTyped ''run1.jtl'')) = ''Jtl/run1.jtl'')
   \<and> (TrimSpace (fst (Scanln (worldTyped ''a/./run''))) = ''a/./run''
      \<and> ''..'' \<notin> set (splitSlash ''a/./run.jtl'')
      \<and> prefix ''Jtl/'' (fst (getResultFilename (worldTyped ''a/./run''))))
   \<and> (TrimSpace (fst (Scanln (worldTyped ''a//b.jtl''))) = ''a//b.jtl''
      \<and> ''..'' \<notin> set (splitSlash ''a//b.jtl'')
      \<and> prefix ''Jtl/'' (fst (getResultFilename (worldTyped ''a//b.jtl''))))"
proof -
  have t: "TrimSpace '' '' = []" "TrimSpace ''run1'' = ''run1''"
    "TrimSpace ''run1.jtl'' = ''run1.jtl''" "TrimSpace ''a/./run'' = ''a/./run''"
    "TrimSpace ''a//b.jtl'' = ''a//b.jtl''"
    by code_simp+
  have h: "\<not> HasSuffix ''run1'' ''.jtl''" "HasSuffix ''run1.jtl'' ''.jtl''"
    "\<not> HasSuffix ''a/./run'' ''.jtl''" "HasSuffix ''a//b.jtl'' ''.jtl''"
    by (simp_all add: HasSuffix_def)
  have c: "\<forall>c \<in> set (splitSlash ''a/./run.jtl''). c \<noteq> ''..''"
    "\<forall>c \<in> set (splitSlash ''a//b.jtl''). c \<noteq> ''..''"
    by simp_all
  have p1: "fst (getResultFilename (worldTyped '' '')) = ''Jtl/result_20240517_090307.jtl''
      \<and> matchLayout ''dddddddd_dddddd'' ''20240517_090307''"
    using getResultFilename_spec [of "[]" "worldTyped '' ''"] t
    by (simp add: worldTyped_simps formatStamp_time0 validTime_time0)
  have p2: "fst (getResultFilename (worldTyped ''run1'')) = ''Jtl/run1.jtl''"
    using getResultFilename_spec [of "''run1''" "worldTyped ''run1''"] t h
    by (simp add: worldTyped_simps)
  have p3: "fst (getResultFilename (worldTyped ''run1.jtl'')) = ''Jtl/run1.jtl''"
    using getResultFilename_spec [of "''run1.jtl''" "worldTyped ''run1.jtl''"] t h
    by (simp add: worldTyped_simps)
  have p4: "prefix ''Jtl/'' (fst (getResultFilename (worldTyped ''a/./run'')))"
    using getResultFilename_spec [of "''a/./run''" "worldTyped ''a/./run''"] t h c
    by (simp add: worldTyped_simps)
  have p5: "prefix ''Jtl/'' (fst (getResultFilename (worldTyped ''a//b.jtl'')))"
    using getResultFilename_spec [of "''a//b.jtl''" "worldTyped ''a//b.jtl''"] t h c
    by (simp add: worldTyped_simps)
  from t h c p1 p2 p3 p4 p5 show ?thesis
    by (simp add: worldTyped_simps validTime_time0)
qed

lemma find_append:
  "find P (xs @ ys) = (case find P xs of None \<Rightarrow> find P ys | Some x \<Rightarrow> Some x)"
  by (induction xs) auto

lemma FindOne_find:
  "FindOne n = find isThreadsNode (nodesOf n)"
  "FindOnes ns = find isThreadsNode (nodesOfList ns)"
  by (induction n and ns rule: FindOne_FindOnes.induct)
     (auto simp: find_append split: option.splits)

lemma andThen_writeLog_Ret:
  "andThen (writeLog msg w) (\<lambda>u w1. (Ret x, w1)) =
     (if mkdirFails w debugDir then Exit 1 else Ret x, snd (writeLog msg w))"
  using writeLog_fst [of msg w]
  by (cases "writeLog msg w") (auto simp: andThen_def split: outcome.splits if_splits)

lemma texts_distinct:
  "planText \<noteq> twoGroupsText" "planText \<noteq> hugeText" "planText \<noteq> noPropText"
  "twoGroupsText \<noteq> hugeText" "twoGroupsText \<noteq> noPropText" "hugeText \<noteq> noPropText"
  "''<jmeterTestPlan>'' \<noteq> planText" "''<jmeterTestPlan>'' \<noteq> twoGroupsText"
  "''<jmeterTestPlan>'' \<noteq> hugeText" "''<jmeterTestPlan>'' \<noteq> noPropText"
  by (simp_all add: planText_def twoGroupsText_def hugeText_def noPropText_def)

lemma xmlParse0_simps:
  "xmlParse0 planText = Inr planDoc" "xmlParse0 twoGroupsText = Inr twoGroupsDoc"
  "xmlParse0 hugeText = Inr hugeDoc" "xmlParse0 noPropText = Inr noPropDoc"
  "xmlParse0 ''<jmeterTestPlan>'' = Inl (SyntaxError ''XML syntax error'')"
  using texts_distinct by (simp_all add: xmlParse0_def)

lemma lib0_simps:
  "xmlParse lib0 = xmlParse0" "jsonScan lib0 = jsonScan0" "ParseFloat lib0 = parseFloat0"
  "jsonError lib0 ''{'' = ''unexpected end of JSON input''"
  "zeroFloat lib0 = 0" "sprintf2f lib0 = sprintf2f0" "secondsText lib0 t1 t2 = ''0.00''"
  by (simp_all add: lib0_def jsonError0_def)

lemma worldPlans_ReadFile:
  "ReadFile ''a.jmx'' worldPlans = Inr planText"
  "ReadFile ''two.jmx'' worldPlans = Inr twoGroupsText"
  "ReadFile ''huge.jmx'' worldPlans = Inr hugeText"
  "ReadFile ''none.jmx'' worldPlans = Inr noPropText"
  "ReadFile ''bad.jmx'' worldPlans = Inr ''<jmeterTestPlan>''"
  "ReadFile ''absent.jmx'' worldPlans = Inl (PathError ''open'' ''absent.jmx'' NotExist)"
  by (simp_all add: ReadFile_def worldPlans_def world0_simps)

lemma worldPlans_simps:
  "\<not> mkdirFails worldPlans d" "content worldPlans logFile = []" "openErr worldPlans p = None"
  "writeErr worldPlans p s = None" "clock worldPlans n = time0"
  by (simp_all add: mkdirFails_def worldPlans_def world0_simps content_def logFile_eq)

text \<open>
  Claim C7 says that the extractor returns \<open>n\<close> whenever the document contains a
  matching element whose text is a decimal integer \<open>n\<close>. Only the first matching
  element is read, and its text must fit an \<open>int\<close>: the extractor returns 0 for a plan
  whose first match reads \<open>many\<close> and whose second reads \<open>7\<close>, and for a plan whose
  match reads \<open>9223372036854775808\<close>.
\<close>

theorem parseThreadCount_counterexample:
  "Element ''intProp'' [(''name'', ''ThreadGroup.num_threads'')] [TextNode ''7'']
     \<in> set (nodesOfList twoGroupsDoc)
   \<and> fst (parseThreadCount lib0 ''two.jmx'' worldPlans) = Ret 0
   \<and> Element ''intProp'' [(''name'', ''ThreadGroup.num_threads'')] [TextNode ''9223372036854775808'']
     \<in> set (nodesOfList hugeDoc)
   \<and> fst (parseThreadCount lib0 ''huge.jmx'' worldPlans) = Ret 0"
proof -
  have a: "Atoi ''many'' = Inl (NumError ''Atoi'' ''many'' ''invalid syntax'')"
    by (simp add: Atoi_def ParseInt_def Let_def isDigit_def)
  have b: "Atoi ''9223372036854775808''
             = Inl (NumError ''Atoi'' ''9223372036854775808'' ''value out of range'')"
    by (simp add: Atoi_def ParseInt_def Let_def isDigit_def digitsVal_def)
  have 1: "fst (parseThreadCount lib0 ''two.jmx'' worldPlans) = Ret 0"
    by (simp add: parseThreadCount_def worldPlans_ReadFile lib0_simps xmlParse0_simps
        twoGroupsDoc_def isThreadsProp_def a andThen_writeLog_Ret worldPlans_simps)
  have 2: "fst (parseThreadCount lib0 ''huge.jmx'' worldPlans) = Ret 0"
    by (simp add: parseThreadCount_def worldPlans_ReadFile lib0_simps xmlParse0_simps
        hugeDoc_def isThreadsProp_def b andThen_writeLog_Ret worldPlans_simps)
  from 1 2 show ?thesis
    by (simp add: twoGroupsDoc_def hugeDoc_def)
qed

text \<open>
  Claim C7, amended. When the file reads and parses as XML and the first element, in
  document order, that is named \<open>intProp\<close> and has the attribute
  \<open>name='ThreadGroup.num_threads'\<close> has a text that \<open>strconv.Atoi\<close> accepts as
  \<open>n\<close>, the extractor returns \<open>n\<close> and logs nothing; the decimal numeral of every
  number below \<open>2^63\<close> is accepted. On a read error, a parse error, a missing element,
  or a text of the first match that \<open>Atoi\<close> rejects, the extractor calls \<open>writeLog\<close>
  with the cause and returns 0, unless the logger ends the process because the log
  directory cannot be created.
\<close>

theorem parseThreadCount_spec:
  "(ReadFile jmxFile w = Inr data \<and> xmlParse lib data = Inr doc \<and> FindOnes doc = Some node
      \<and> Atoi (InnerText node) = Inr n
      \<longrightarrow> parseThreadCount lib jmxFile w = (Ret n, w))
   \<and> (ReadFile jmxFile w = Inr data \<and> xmlParse lib data = Inr doc \<and> FindOnes doc = Some node
      \<and> InnerText node = utoa k \<and> int k < 2 ^ 63
      \<longrightarrow> parseThreadCount lib jmxFile w = (Ret (int k), w))
   \<and> FindOnes doc = find isThreadsNode (nodesOfList doc)
   \<and> (ReadFile jmxFile w = Inl e
      \<longrightarrow> parseThreadCount lib jmxFile w
            = (if mkdirFails w debugDir then Exit 1 else Ret 0,
               snd (writeLog (''reading the JMX file failed: '' @ Error e) w)))
   \<and> (ReadFile jmxFile w = Inr data \<and> xmlParse lib data = Inl e
      \<longrightarrow> parseThreadCount lib jmxFile w
            = (if mkdirFails w debugDir then Exit 1 else Ret 0,
               snd (writeLog (''parsing the XML failed: '' @ Error e) w)))
   \<and> (ReadFile jmxFile w = Inr data \<and> xmlParse lib data = Inr doc \<and> FindOnes doc = None
      \<longrightarrow> parseThreadCount lib jmxFile w
            = (if mkdirFails w debugDir then Exit 1 else Ret 0,
               snd (writeLog ''thread count setting not found'' w)))
   \<and> (ReadFile jmxFile w = Inr data \<and> xmlParse lib data = Inr doc \<and> FindOnes doc = Some node
      \<and> Atoi (InnerText node) = Inl e
      \<longrightarrow> parseThreadCount lib jmxFile w
            = (if mkdirFails w debugDir then Exit 1 else Ret 0,
               snd (writeLog (''converting the thread count failed: '' @ Error e) w)))"
  by (simp add: parseThreadCount_def andThen_writeLog_Ret Atoi_utoa FindOne_find)

theorem parseThreadCount_spec_witness:
  "(ReadFile ''a.jmx'' worldPlans = Inr planText \<and> xmlParse lib0 planText = Inr planDoc
      \<and> FindOnes planDoc
          = Some (Element ''intProp'' [(''name'', ''ThreadGroup.num_threads'')] [TextNode ''7''])
      \<and> Atoi ''7'' = Inr 7 \<and> utoa 7 = ''7''
      \<and> parseThreadCount lib0 ''a.jmx'' worldPlans = (Ret 7, worldPlans))
   \<and> (ReadFile ''absent.jmx'' worldPlans = Inl (PathError ''open'' ''absent.jmx'' NotExist)
      \<and> fst (parseThreadCount lib0 ''absent.jmx'' worldPlans) = Ret 0
      \<and> content (snd (parseThreadCount lib0 ''absent.jmx'' worldPlans)) logFile
          = ''[2024-05-17 09:03:07] reading the JMX file failed: ''
              @ ''open absent.jmx: no such file or directory'' @ nl)
   \<and> (xmlParse lib0 ''<jmeterTestPlan>'' = Inl (SyntaxError ''XML syntax error'')
      \<and> fst (parseThreadCount lib0 ''bad.jmx'' worldPlans) = Ret 0
      \<and> content (snd (parseThreadCount lib0 ''bad.jmx'' worldPlans)) logFile
          = ''[2024-05-17 09:03:07] parsing the XML failed: XML syntax error'' @ nl)
   \<and> (FindOnes noPropDoc = None
      \<and> fst (parseThreadCount lib0 ''none.jmx'' worldPlans) = Ret 0
      \<and> content (snd (parseThreadCount lib0 ''none.jmx'' worldPlans)) logFile
          = ''[2024-05-17 09:03:07] thread count setting not found'' @ nl)
   \<and> (Atoi ''many'' = Inl (NumError ''Atoi'' ''many'' ''invalid syntax'')
      \<and> fst (parseThreadCount lib0 ''two.jmx'' worldPlans) = Ret 0
      \<and> content (snd (parseThreadCount lib0 ''two.jmx'' worldPlans)) logFile
          = ''[2024-05-17 09:03:07] converting the thread count failed: ''
              @ ''strconv.Atoi: parsing many: invalid syntax'' @ nl)"
proof -
  let ?node7 = "Element ''intProp'' [(''name'', ''ThreadGroup.num_threads'')] [TextNode ''7'']"
  let ?nodeMany = "Element ''intProp'' [(''name'', ''ThreadGroup.num_threads'')] [TextNode ''many'']"
  have f: "FindOnes planDoc = Some ?node7" "FindOnes noPropDoc = None"
    "FindOnes twoGroupsDoc = Some ?nodeMany"
    by (simp_all add: planDoc_def noPropDoc_def twoGroupsDoc_def isThreadsProp_def)
  have a: "Atoi ''7'' = Inr 7" "Atoi ''many'' = Inl (NumError ''Atoi'' ''many'' ''invalid syntax'')"
    by (simp_all add: Atoi_def ParseInt_def Let_def isDigit_def digitsVal_def)
  have u: "utoa 7 = ''7''" by code_simp
  have c: "\<And>msg. content (snd (writeLog msg worldPlans)) logFile
                    = ''[2024-05-17 09:03:07] '' @ msg @ nl"
    by (subst writeLog_content) (simp add: worldPlans_simps logEntry_time0)
  have p1: "parseThreadCount lib0 ''a.jmx'' worldPlans = (Ret 7, worldPlans)"
    using parseThreadCount_spec [of "''a.jmx''" worldPlans planText lib0 planDoc ?node7 7] f a
    by (simp add: worldPlans_ReadFile lib0_simps xmlParse0_simps)
  have p2: "parseThreadCount lib0 ''absent.jmx'' worldPlans
              = (Ret 0, snd (writeLog (''reading the JMX file failed: ''
                   @ Error (PathError ''open'' ''absent.jmx'' NotExist)) worldPlans))"
    using parseThreadCount_spec [of "''absent.jmx''" worldPlans undefined lib0 undefined undefined
        0 0 "PathError ''open'' ''absent.jmx'' NotExist"]
    by (simp add: worldPlans_ReadFile worldPlans_simps)
  have p3: "parseThreadCount lib0 ''bad.jmx'' worldPlans
              = (Ret 0, snd (writeLog (''parsing the XML failed: ''
                   @ Error (SyntaxError ''XML syntax error'')) worldPlans))"
    using parseThreadCount_spec [of "''bad.jmx''" worldPlans "''<jmeterTestPlan>''" lib0 undefined
        undefined 0 0 "SyntaxError ''XML syntax error''"]
    by (simp add: worldPlans_ReadFile worldPlans_simps lib0_simps xmlParse0_simps)
  have p4: "parseThreadCount lib0 ''none.jmx'' worldPlans
              = (Ret 0, snd (writeLog ''thread count setting not found'' worldPlans))"
    using parseThreadCount_spec [of "''none.jmx''" worldPlans noPropText lib0 noPropDoc undefined
        0 0 undefined] f
    by (simp add: worldPlans_ReadFile worldPlans_simps lib0_simps xmlParse0_simps)
  have p5: "parseThreadCount lib0 ''two.jmx'' worldPlans
              = (Ret 0, snd (writeLog (''converting the thread count failed: ''
                   @ Error (NumError ''Atoi'' ''many'' ''invalid syntax'')) worldPlans))"
    using parseThreadCount_spec [of "''two.jmx''" worldPlans twoGroupsText lib0 twoGroupsDoc
        ?nodeMany 0 0 "NumError ''Atoi'' ''many'' ''invalid syntax''"] f a
    by (simp add: worldPlans_ReadFile worldPlans_simps lib0_simps xmlParse0_simps)
  from f a u p1 show ?thesis
    by (simp add: p2 p3 p4 p5 c worldPlans_ReadFile lib0_simps xmlParse0_simps)
qed

lemma foldName_names:
  "foldName ''sampleCount'' = ''SAMPLECOUNT''" "foldName ''errorPct'' = ''ERRORPCT''"
  "foldName ''meanResTime'' = ''MEANRESTIME''" "foldName ''throughput'' = ''THROUGHPUT''"
  "foldName ''errorCount'' = ''ERRORCOUNT''" "foldName ''Total'' = ''TOTAL''"
  by code_simp+

declare foldName.simps [simp del]

lemma fieldMatch_iff: "fieldMatch name key \<longleftrightarrow> foldName key = foldName name"
  by (auto simp: fieldMatch_def)

lemma fieldMatch_self: "fieldMatch name name"
  by (simp add: fieldMatch_def)

lemma saveError_None: "saveError sv e = None \<longleftrightarrow> False"
  by (simp add: saveError_def split: option.splits)

lemma decodeInt_snd: "snd (decodeInt v (old, sv)) = None \<longleftrightarrow> sv = None \<and> intOK v"
  by (auto simp: decodeInt_def intOK_def saveError_None split: json.splits sum.splits)

lemma decodeFloat_snd: "snd (decodeFloat lib v (old, sv)) = None \<longleftrightarrow> sv = None \<and> floatOK lib v"
  by (auto simp: decodeFloat_def floatOK_def saveError_None split: json.splits option.splits)

lemma decodeInt_fst:
  "fst (decodeInt v (old, sv)) =
     (case v of JNumber s \<Rightarrow> (case ParseInt ''ParseInt'' s of Inr n \<Rightarrow> n | Inl e \<Rightarrow> old)
              | _ \<Rightarrow> old)"
  by (auto simp: decodeInt_def split: json.splits sum.splits)

lemma decodeFloat_fst:
  "fst (decodeFloat lib v (old, sv)) =
     (case v of JNumber s \<Rightarrow> (case ParseFloat lib s of Some x \<Rightarrow> x | None \<Rightarrow> old)
              | _ \<Rightarrow> old)"
  by (auto simp: decodeFloat_def split: json.splits option.splits)

lemma decodeInt_sticky: "sv \<noteq> None \<Longrightarrow> snd (decodeInt v (old, sv)) = sv"
  by (auto simp: decodeInt_def saveError_def split: json.splits sum.splits)

lemma decodeFloat_sticky: "sv \<noteq> None \<Longrightarrow> snd (decodeFloat lib v (old, sv)) = sv"
  by (auto simp: decodeFloat_def saveError_def split: json.splits option.splits)

lemma list_all_matching:
  "list_all P (matching name ms) \<longleftrightarrow> (\<forall>m \<in> set ms. fieldMatch name (fst m) \<longrightarrow> P (snd m))"
  by (auto simp: matching_def list_all_iff)

lemma matching_Nil: "matching name [] = []"
  by (simp add: matching_def)

lemma matching_Cons:
  "matching name ((k, v) # ms) = (if fieldMatch name k then v # matching name ms else matching name ms)"
  by (simp add: matching_def)

lemma totalsFit_members:
  "totalsFit lib (JObject ms) \<longleftrightarrow> (\<forall>m \<in> set ms. memberFits lib m)"
  by (auto simp: totalsFit_def list_all_matching memberFits_def)

lemma member_snd:
  "snd (decodeTotalsMember lib acc m) = None \<longleftrightarrow> snd acc = None \<and> memberFits lib m"
proof -
  obtain t sv where acc: "acc = (t, sv)" by (cases acc)
  obtain k v where m: "m = (k, v)" by (cases m)
  show ?thesis
    unfolding acc m
    by (simp add: decodeTotalsMember_def memberFits_def fieldMatch_iff foldName_names
        case_prod_beta decodeInt_snd decodeFloat_snd)
qed

lemma members_snd:
  "snd (foldl (decodeTotalsMember lib) acc ms) = None
     \<longleftrightarrow> snd acc = None \<and> (\<forall>m \<in> set ms. memberFits lib m)"
  by (induction ms arbitrary: acc) (auto simp: member_snd)

lemma member_SampleCount:
  "SampleCount (fst (decodeTotalsMember lib acc m))
     = (if fieldMatch ''sampleCount'' (fst m) then fst (decodeInt (snd m) (SampleCount (fst acc), None))
        else SampleCount (fst acc))"
  by (cases acc; cases m)
     (simp add: decodeTotalsMember_def fieldMatch_iff foldName_names case_prod_beta decodeInt_fst)

lemma member_ErrorPct:
  "ErrorPct (fst (decodeTotalsMember lib acc m))
     = (if fieldMatch ''errorPct'' (fst m) then fst (decodeFloat lib (snd m) (ErrorPct (fst acc), None))
        else ErrorPct (fst acc))"
  by (cases acc; cases m)
     (simp add: decodeTotalsMember_def fieldMatch_iff foldName_names case_prod_beta decodeFloat_fst)

lemma member_MeanResTime:
  "MeanResTime (fst (decodeTotalsMember lib acc m))
     = (if fieldMatch ''meanResTime'' (fst m)
        then fst (decodeFloat lib (snd m) (MeanResTime (fst acc), None))
        else MeanResTime (fst acc))"
  by (cases acc; cases m)
     (simp add: decodeTotalsMember_def fieldMatch_iff foldName_names case_prod_beta decodeFloat_fst)

lemma member_Throughput:
  "Throughput (fst (decodeTotalsMember lib acc m))
     = (if fieldMatch ''throughput'' (fst m)
        then fst (decodeFloat lib (snd m) (Throughput (fst acc), None))
        else Throughput (fst acc))"
  by (cases acc; cases m)
     (simp add: decodeTotalsMember_def fieldMatch_iff foldName_names case_prod_beta decodeFloat_fst)

lemma member_Errorcount:
  "Errorcount (fst (decodeTotalsMember lib acc m))
     = (if fieldMatch ''errorCount'' (fst m) then fst (decodeInt (snd m) (Errorcount (fst acc), None))
        else Errorcount (fst acc))"
  by (cases acc; cases m)
     (simp add: decodeTotalsMember_def fieldMatch_iff foldName_names case_prod_beta decodeInt_fst)

lemma matching_Cons':
  "matching name (m # ms) = (if fieldMatch name (fst m) then snd m # matching name ms
                             else matching name ms)"
  by (simp add: matching_def)

lemma members_SampleCount:
  "SampleCount (fst (foldl (decodeTotalsMember lib) acc ms))
     = foldl (\<lambda>x v. fst (decodeInt v (x, None))) (SampleCount (fst acc)) (matching ''sampleCount'' ms)"
  by (induction ms arbitrary: acc) (simp_all add: matching_Nil matching_Cons' member_SampleCount)

lemma members_ErrorPct:
  "ErrorPct (fst (foldl (decodeTotalsMember lib) acc ms))
     = foldl (\<lambda>x v. fst (decodeFloat lib v (x, None))) (ErrorPct (fst acc)) (matching ''errorPct'' ms)"
  by (induction ms arbitrary: acc) (simp_all add: matching_Nil matching_Cons' member_ErrorPct)

lemma members_MeanResTime:
  "MeanResTime (fst (foldl (decodeTotalsMember lib) acc ms))
     = foldl (\<lambda>x v. fst (decodeFloat lib v (x, None))) (MeanResTime (fst acc))
         (matching ''meanResTime'' ms)"
  by (induction ms arbitrary: acc) (simp_all add: matching_Nil matching_Cons' member_MeanResTime)

lemma members_Throughput:
  "Throughput (fst (foldl (decodeTotalsMember lib) acc ms))
     = foldl (\<lambda>x v. fst (decodeFloat lib v (x, None))) (Throughput (fst acc))
         (matching ''throughput'' ms)"
  by (induction ms arbitrary: acc) (simp_all add: matching_Nil matching_Cons' member_Throughput)

lemma members_Errorcount:
  "Errorcount (fst (foldl (decodeTotalsMember lib) acc ms))
     = foldl (\<lambda>x v. fst (decodeInt v (x, None))) (Errorcount (fst acc)) (matching ''errorCount'' ms)"
  by (induction ms arbitrary: acc) (simp_all add: matching_Nil matching_Cons' member_Errorcount)

lemma member_fst_indep:
  "fst (decodeTotalsMember lib (t, sv) m) = fst (decodeTotalsMember lib (t, None) m)"
  by (cases m)
     (simp add: decodeTotalsMember_def case_prod_beta decodeInt_fst decodeFloat_fst)

lemma members_fst_indep:
  "fst (foldl (decodeTotalsMember lib) (t, sv) ms) = fst (foldl (decodeTotalsMember lib) (t, None) ms)"
proof (induction ms arbitrary: t sv)
  case Nil
  then show ?case by simp
next
  case (Cons m ms)
  obtain t1 sv1 where 1: "decodeTotalsMember lib (t, sv) m = (t1, sv1)"
    by (cases "decodeTotalsMember lib (t, sv) m")
  obtain t2 sv2 where 2: "decodeTotalsMember lib (t, None) m = (t2, sv2)"
    by (cases "decodeTotalsMember lib (t, None) m")
  from 1 2 have "t1 = t2"
    using member_fst_indep [of lib t sv m] by simp
  then show ?case
    using Cons.IH [of t1 sv1] Cons.IH [of t2 sv2] by (simp add: 1 2)
qed

lemma decodeTotals_fst_indep:
  "fst (decodeTotals lib v (t, sv)) = fst (decodeTotals lib v (t, None))"
  using members_fst_indep [of lib t sv]
  by (cases v) (simp_all add: decodeTotals_def)

lemma decodeTotals_snd:
  "snd (decodeTotals lib v acc) = None \<longleftrightarrow> snd acc = None \<and> totalsFit lib v"
proof (cases v)
  case (JObject ms)
  then show ?thesis
    by (simp add: decodeTotals_def members_snd totalsFit_members)
qed (simp_all add: decodeTotals_def totalsFit_def saveError_None)

lemma statisticsMember_snd:
  "snd (decodeStatisticsMember lib acc m) = None
     \<longleftrightarrow> snd acc = None \<and> (fieldMatch ''Total'' (fst m) \<longrightarrow> totalsFit lib (snd m))"
  by (cases acc; cases m)
     (simp add: decodeStatisticsMember_def case_prod_beta decodeTotals_snd)

lemma statisticsMembers_snd:
  "snd (foldl (decodeStatisticsMember lib) acc ms) = None
     \<longleftrightarrow> snd acc = None \<and> list_all (totalsFit lib) (matching ''Total'' ms)"
  by (induction ms arbitrary: acc)
     (auto simp: statisticsMember_snd matching_Nil matching_Cons')

lemma statisticsMember_Total:
  "Total (fst (decodeStatisticsMember lib acc m))
     = (if fieldMatch ''Total'' (fst m) then fst (decodeTotals lib (snd m) (Total (fst acc), None))
        else Total (fst acc))"
  using decodeTotals_fst_indep [of lib "snd m" "Total (fst acc)" "snd acc"]
  by (cases acc; cases m) (simp add: decodeStatisticsMember_def case_prod_beta)

lemma statisticsMembers_Total:
  "Total (fst (foldl (decodeStatisticsMember lib) acc ms))
     = foldl (\<lambda>t v. fst (decodeTotals lib v (t, None))) (Total (fst acc)) (matching ''Total'' ms)"
  by (induction ms arbitrary: acc)
     (simp_all add: matching_Nil matching_Cons' statisticsMember_Total)

lemma decodeStatistics_snd:
  "snd (decodeStatistics lib v (st, None)) = None \<longleftrightarrow> docFits lib v"
proof (cases v)
  case (JObject ms)
  then show ?thesis
    by (simp add: decodeStatistics_def statisticsMembers_snd docFits_def)
qed (simp_all add: decodeStatistics_def docFits_def saveError_None)

lemma Unmarshal_Inr:
  "Unmarshal lib data st = Inr st'
     \<longleftrightarrow> (\<exists>v. jsonScan lib data = Some v \<and> docFits lib v
              \<and> st' = fst (decodeStatistics lib v (st, None)))"
proof (cases "jsonScan lib data")
  case None
  then show ?thesis by (simp add: Unmarshal_def)
next
  case (Some v)
  obtain r sv where d: "decodeStatistics lib v (st, None) = (r, sv)"
    by (cases "decodeStatistics lib v (st, None)")
  with decodeStatistics_snd [of lib v st] have "sv = None \<longleftrightarrow> docFits lib v" by simp
  with Some d show ?thesis
    by (cases sv) (auto simp: Unmarshal_def)
qed

lemma Unmarshal_Inl:
  "(\<exists>e. Unmarshal lib data st = Inl e)
     \<longleftrightarrow> (jsonScan lib data = None \<or> (\<exists>v. jsonScan lib data = Some v \<and> \<not> docFits lib v))"
proof (cases "Unmarshal lib data st")
  case (Inl e)
  then show ?thesis
    using Unmarshal_Inr [of lib data st] by (cases "jsonScan lib data") auto
next
  case (Inr st')
  then show ?thesis
    using Unmarshal_Inr [of lib data st st'] by auto
qed

lemma decoded_Total:
  assumes "matching ''Total'' tops = [JObject ms]"
  shows "Total (fst (decodeStatistics lib (JObject tops) (z, None)))
           = fst (foldl (decodeTotalsMember lib) (Total z, None) ms)"
  using assms by (simp add: decodeStatistics_def statisticsMembers_Total decodeTotals_def)

lemma decoded_no_Total:
  assumes "matching ''Total'' tops = []"
  shows "Total (fst (decodeStatistics lib (JObject tops) (z, None))) = Total z"
  using assms by (simp add: decodeStatistics_def statisticsMembers_Total)


lemma parseStatistics_Inr:
  "parseStatistics lib reportFolder w = Inr m
     \<longleftrightarrow> (\<exists>data v. ReadFile (Join [reportFolder, ''statistics.json'']) w = Inr data
            \<and> jsonScan lib data = Some v \<and> docFits lib v
            \<and> m = (let t = Total (fst (decodeStatistics lib v (zeroStatistics lib, None)))
                   in [''sampleCount'' \<mapsto> IntVal (SampleCount t),
                       ''errorPct'' \<mapsto> FloatVal (ErrorPct t),
                       ''meanResTime'' \<mapsto> FloatVal (MeanResTime t),
                       ''throughput'' \<mapsto> FloatVal (Throughput t),
                       ''Errorcount'' \<mapsto> IntVal (Errorcount t)]))"
proof (cases "ReadFile (Join [reportFolder, ''statistics.json'']) w")
  case (Inl e)
  then show ?thesis by (simp add: parseStatistics_def)
next
  case (Inr data)
  show ?thesis
  proof (cases "Unmarshal lib data (zeroStatistics lib)")
    case (Inl e)
    then have "\<not> (\<exists>v. jsonScan lib data = Some v \<and> docFits lib v)"
      using Unmarshal_Inl [of lib data "zeroStatistics lib"] by auto
    with Inl Inr show ?thesis by (auto simp: parseStatistics_def)
  next
    case st: (Inr st')
    then obtain v where v: "jsonScan lib data = Some v" "docFits lib v"
        "st' = fst (decodeStatistics lib v (zeroStatistics lib, None))"
      using Unmarshal_Inr [of lib data "zeroStatistics lib" st'] by auto
    with st Inr show ?thesis by (auto simp: parseStatistics_def Let_def)
  qed
qed

lemma parseStatistics_dom:
  assumes "parseStatistics lib reportFolder w = Inr m"
  shows "dom m = {''sampleCount'', ''errorPct'', ''meanResTime'', ''throughput'', ''Errorcount''}"
proof (cases "ReadFile (Join [reportFolder, ''statistics.json'']) w")
  case (Inl e)
  with assms show ?thesis by (simp add: parseStatistics_def)
next
  case (Inr data)
  show ?thesis
  proof (cases "Unmarshal lib data (zeroStatistics lib)")
    case (Inl e)
    with Inr assms show ?thesis by (simp add: parseStatistics_def)
  next
    case st: (Inr stats)
    with Inr assms have
      "m = [''sampleCount'' \<mapsto> IntVal (SampleCount (Total stats)),
            ''errorPct'' \<mapsto> FloatVal (ErrorPct (Total stats)),
            ''meanResTime'' \<mapsto> FloatVal (MeanResTime (Total stats)),
            ''throughput'' \<mapsto> FloatVal (Throughput (Total stats)),
            ''Errorcount'' \<mapsto> IntVal (Errorcount (Total stats))]"
      by (simp add: parseStatistics_def del: fun_upd_apply)
    then show ?thesis
      by (simp add: insert_commute del: fun_upd_apply)
  qed
qed

lemma parseStatistics_values:
  assumes "ReadFile (Join [reportFolder, ''statistics.json'']) w = Inr data"
    and "jsonScan lib data = Some (JObject tops)" and "matching ''Total'' tops = [JObject ms]"
    and "matching ''sampleCount'' ms = [JNumber sc]" and "ParseInt ''ParseInt'' sc = Inr n1"
    and "matching ''errorPct'' ms = [JNumber ep]" and "ParseFloat lib ep = Some x1"
    and "matching ''meanResTime'' ms = [JNumber mr]" and "ParseFloat lib mr = Some x2"
    and "matching ''throughput'' ms = [JNumber tp]" and "ParseFloat lib tp = Some x3"
    and "matching ''errorCount'' ms = [JNumber ec]" and "ParseInt ''ParseInt'' ec = Inr n2"
  shows "parseStatistics lib reportFolder w
           = Inr [''sampleCount'' \<mapsto> IntVal n1, ''errorPct'' \<mapsto> FloatVal x1,
                  ''meanResTime'' \<mapsto> FloatVal x2, ''throughput'' \<mapsto> FloatVal x3,
                  ''Errorcount'' \<mapsto> IntVal n2]"
proof -
  have fit: "docFits lib (JObject tops)"
    using assms by (simp add: docFits_def totalsFit_def intOK_def floatOK_def)
  let ?t = "Total (fst (decodeStatistics lib (JObject tops) (zeroStatistics lib, None)))"
  have t: "?t = fst (foldl (decodeTotalsMember lib) (Total (zeroStatistics lib), None) ms)"
    using assms(3) by (rule decoded_Total)
  have f: "SampleCount ?t = n1" "ErrorPct ?t = x1" "MeanResTime ?t = x2" "Throughput ?t = x3"
    "Errorcount ?t = n2"
    unfolding t
    using assms
    by (simp_all add: members_SampleCount members_ErrorPct members_MeanResTime members_Throughput
        members_Errorcount decodeInt_fst decodeFloat_fst)
  show ?thesis
    using assms(1,2) fit f by (simp add: parseStatistics_Inr Let_def)
qed

lemma stat_paths:
  "Join [''Reporter/r1'', ''statistics.json''] = ''Reporter/r1/statistics.json''"
  "Join [''Reporter/partial'', ''statistics.json''] = ''Reporter/partial/statistics.json''"
  "Join [''Reporter/fraction'', ''statistics.json''] = ''Reporter/fraction/statistics.json''"
  "Join [''Reporter/empty'', ''statistics.json''] = ''Reporter/empty/statistics.json''"
  "Join [''Reporter/array'', ''statistics.json''] = ''Reporter/array/statistics.json''"
  "Join [''Reporter/null'', ''statistics.json''] = ''Reporter/null/statistics.json''"
  "Join [''Reporter/cut'', ''statistics.json''] = ''Reporter/cut/statistics.json''"
  "Join [''Reporter/none'', ''statistics.json''] = ''Reporter/none/statistics.json''"
  by (simp_all add: Join_def Clean_def cleanStep_def)

lemma worldStats_ReadFile:
  "ReadFile ''Reporter/r1/statistics.json'' worldStats = Inr statsText"
  "ReadFile ''Reporter/partial/statistics.json'' worldStats = Inr partialText"
  "ReadFile ''Reporter/fraction/statistics.json'' worldStats = Inr fractionText"
  "ReadFile ''Reporter/empty/statistics.json'' worldStats = Inr ''{}''"
  "ReadFile ''Reporter/array/statistics.json'' worldStats = Inr ''[]''"
  "ReadFile ''Reporter/null/statistics.json'' worldStats = Inr ''null''"
  "ReadFile ''Reporter/cut/statistics.json'' worldStats = Inr ''{''"
  "ReadFile ''Reporter/none/statistics.json'' worldStats
     = Inl (PathError ''open'' ''Reporter/none/statistics.json'' NotExist)"
  by (simp_all add: ReadFile_def worldStats_def world0_simps)

lemma jsonScan0_simps:
  "jsonScan0 statsText = Some statsJson" "jsonScan0 partialText = Some partialJson"
  "jsonScan0 fractionText = Some fractionJson" "jsonScan0 ''{}'' = Some (JObject [])"
  "jsonScan0 ''[]'' = Some (JArray [])" "jsonScan0 ''null'' = Some JNull" "jsonScan0 ''{'' = None"
  by (simp_all add: jsonScan0_def statsText_def partialText_def fractionText_def)

lemma foldName_transaction: "foldName ''transaction'' = ''TRANSACTION''"
  by code_simp

lemma fieldMatch_literals:
  "fieldMatch ''Total'' ''Total''" "fieldMatch ''sampleCount'' ''sampleCount''"
  "\<not> fieldMatch ''sampleCount'' ''transaction''" "\<not> fieldMatch ''sampleCount'' ''errorCount''"
  "\<not> fieldMatch ''sampleCount'' ''errorPct''" "\<not> fieldMatch ''sampleCount'' ''meanResTime''"
  "\<not> fieldMatch ''sampleCount'' ''throughput''"
  "\<not> fieldMatch ''errorPct'' ''transaction''" "\<not> fieldMatch ''errorPct'' ''sampleCount''"
  "\<not> fieldMatch ''errorPct'' ''errorCount''" "fieldMatch ''errorPct'' ''errorPct''"
  "\<not> fieldMatch ''errorPct'' ''meanResTime''" "\<not> fieldMatch ''errorPct'' ''throughput''"
  "\<not> fieldMatch ''meanResTime'' ''transaction''" "\<not> fieldMatch ''meanResTime'' ''sampleCount''"
  "\<not> fieldMatch ''meanResTime'' ''errorCount''" "\<not> fieldMatch ''meanResTime'' ''errorPct''"
  "fieldMatch ''meanResTime'' ''meanResTime''" "\<not> fieldMatch ''meanResTime'' ''throughput''"
  "\<not> fieldMatch ''throughput'' ''transaction''" "\<not> fieldMatch ''throughput'' ''sampleCount''"
  "\<not> fieldMatch ''throughput'' ''errorCount''" "\<not> fieldMatch ''throughput'' ''errorPct''"
  "\<not> fieldMatch ''throughput'' ''meanResTime''" "fieldMatch ''throughput'' ''throughput''"
  "\<not> fieldMatch ''errorCount'' ''transaction''" "\<not> fieldMatch ''errorCount'' ''sampleCount''"
  "fieldMatch ''errorCount'' ''errorCount''" "\<not> fieldMatch ''errorCount'' ''errorPct''"
  "\<not> fieldMatch ''errorCount'' ''meanResTime''" "\<not> fieldMatch ''errorCount'' ''throughput''"
  by (simp_all add: fieldMatch_iff foldName_names foldName_transaction)

lemma ParseInt_literals:
  "ParseInt ''ParseInt'' ''100'' = Inr 100" "ParseInt ''ParseInt'' ''2'' = Inr 2"
  "ParseInt ''ParseInt'' ''1.5'' = Inl (NumError ''ParseInt'' ''1.5'' ''invalid syntax'')"
  by (simp_all add: ParseInt_def Let_def isDigit_def digitsVal_def)

lemma parseFloat0_simps:
  "parseFloat0 ''2.5'' = Some (5 / 2)" "parseFloat0 ''123.4'' = Some (617 / 5)"
  "parseFloat0 ''50.0'' = Some 50"
  by (simp_all add: parseFloat0_def)

lemma statsJson_matching:
  "matching ''Total'' [(''Total'', v)] = [v]"
  "matching ''sampleCount'' statsMembers = [JNumber ''100'']"
  "matching ''errorPct'' statsMembers = [JNumber ''2.5'']"
  "matching ''meanResTime'' statsMembers = [JNumber ''123.4'']"
  "matching ''throughput'' statsMembers = [JNumber ''50.0'']"
  "matching ''errorCount'' statsMembers = [JNumber ''2'']"
  by (simp_all add: statsMembers_def matching_Cons matching_Nil fieldMatch_literals)

lemma parseStatistics_r1:
  "parseStatistics lib0 ''Reporter/r1'' worldStats
     = Inr [''sampleCount'' \<mapsto> IntVal 100, ''errorPct'' \<mapsto> FloatVal (5 / 2),
            ''meanResTime'' \<mapsto> FloatVal (617 / 5), ''throughput'' \<mapsto> FloatVal 50,
            ''Errorcount'' \<mapsto> IntVal 2]"
  by (rule parseStatistics_values [where data = statsText and sc = "''100''" and ep = "''2.5''"
        and mr = "''123.4''" and tp = "''50.0''" and ec = "''2''"
        and tops = "[(''Total'', JObject statsMembers)]" and ms = statsMembers])
     (simp_all add: stat_paths worldStats_ReadFile lib0_simps jsonScan0_simps statsJson_def
        statsJson_matching ParseInt_literals parseFloat0_simps)

text \<open>
  Claim C1 says that the five values are returned under their field names, among them
  \<open>errorCount\<close>. The map of \<open>parseStatistics\<close> holds the error count under the key
  \<open>Errorcount\<close>, the name of the struct field, and has no key \<open>errorCount\<close>.
\<close>

theorem parseStatistics_key_counterexample:
  "(case parseStatistics lib0 ''Reporter/r1'' worldStats of
      Inl e \<Rightarrow> False
    | Inr m \<Rightarrow> m ''errorCount'' = None \<and> m ''Errorcount'' = Some (IntVal 2))"
  by (simp add: parseStatistics_r1)

text \<open>
  Claim C1, amended. When \<open>statistics.json\<close> in the report folder cannot be read, the
  read error is returned; when it is not well-formed JSON, the syntax error of the JSON
  scanner is returned. When it holds an object in which exactly one member goes to the
  field \<open>Total\<close> (keys are matched as \<open>encoding/json\<close> matches them, letter case
  ignored), and that member is an object in which exactly one member goes to each of the
  five fields, a number that fits the type of the field (an integer literal within the
  range of \<open>int\<close> for the two counts), the result is the map that holds exactly these
  five values under the keys \<open>sampleCount\<close>, \<open>errorPct\<close>, \<open>meanResTime\<close>,
  \<open>throughput\<close> and \<open>Errorcount\<close>. Every map returned has exactly these five keys.
\<close>

theorem parseStatistics_spec:
  "(ReadFile (Join [reportFolder, ''statistics.json'']) w = Inl e
      \<longrightarrow> parseStatistics lib reportFolder w = Inl e)
   \<and> (ReadFile (Join [reportFolder, ''statistics.json'']) w = Inr data \<and> jsonScan lib data = None
      \<longrightarrow> parseStatistics lib reportFolder w = Inl (SyntaxError (jsonError lib data)))
   \<and> (ReadFile (Join [reportFolder, ''statistics.json'']) w = Inr data
        \<and> jsonScan lib data = Some (JObject tops) \<and> matching ''Total'' tops = [JObject ms]
        \<and> matching ''sampleCount'' ms = [JNumber sc] \<and> ParseInt ''ParseInt'' sc = Inr n1
        \<and> matching ''errorPct'' ms = [JNumber ep] \<and> ParseFloat lib ep = Some x1
        \<and> matching ''meanResTime'' ms = [JNumber mr] \<and> ParseFloat lib mr = Some x2
        \<and> matching ''throughput'' ms = [JNumber tp] \<and> ParseFloat lib tp = Some x3
        \<and> matching ''errorCount'' ms = [JNumber ec] \<and> ParseInt ''ParseInt'' ec = Inr n2
      \<longrightarrow> parseStatistics lib reportFolder w
            = Inr [''sampleCount'' \<mapsto> IntVal n1, ''errorPct'' \<mapsto> FloatVal x1,
                   ''meanResTime'' \<mapsto> FloatVal x2, ''throughput'' \<mapsto> FloatVal x3,
                   ''Errorcount'' \<mapsto> IntVal n2])
   \<and> (parseStatistics lib reportFolder w = Inr m
      \<longrightarrow> dom m = {''sampleCount'', ''errorPct'', ''meanResTime'', ''throughput'', ''Errorcount''})"
proof (intro conjI impI)
  assume "ReadFile (Join [reportFolder, ''statistics.json'']) w = Inl e"
  then show "parseStatistics lib reportFolder w = Inl e"
    by (simp add: parseStatistics_def)
next
  assume "ReadFile (Join [reportFolder, ''statistics.json'']) w = Inr data \<and> jsonScan lib data = None"
  then show "parseStatistics lib reportFolder w = Inl (SyntaxError (jsonError lib data))"
    by (simp add: parseStatistics_def Unmarshal_def)
next
  assume "ReadFile (Join [reportFolder, ''statistics.json'']) w = Inr data
        \<and> jsonScan lib data = Some (JObject tops) \<and> matching ''Total'' tops = [JObject ms]
        \<and> matching ''sampleCount'' ms = [JNumber sc] \<and> ParseInt ''ParseInt'' sc = Inr n1
        \<and> matching ''errorPct'' ms = [JNumber ep] \<and> ParseFloat lib ep = Some x1
        \<and> matching ''meanResTime'' ms = [JNumber mr] \<and> ParseFloat lib mr = Some x2
        \<and> matching ''throughput'' ms = [JNumber tp] \<and> ParseFloat lib tp = Some x3
        \<and> matching ''errorCount'' ms = [JNumber ec] \<and> ParseInt ''ParseInt'' ec = Inr n2"
  then show "parseStatistics lib reportFolder w
            = Inr [''sampleCount'' \<mapsto> IntVal n1, ''errorPct'' \<mapsto> FloatVal x1,
                   ''meanResTime'' \<mapsto> FloatVal x2, ''throughput'' \<mapsto> FloatVal x3,
                   ''Errorcount'' \<mapsto> IntVal n2]"
    by (intro parseStatistics_values [where data = data and tops = tops and ms = ms and sc = sc
          and ep = ep and mr = mr and tp = tp and ec = ec]) simp_all
next
  assume "parseStatistics lib reportFolder w = Inr m"
  then show "dom m = {''sampleCount'', ''errorPct'', ''meanResTime'', ''throughput'', ''Errorcount''}"
    by (rule parseStatistics_dom)
qed

theorem parseStatistics_spec_witness:
  "(ReadFile (Join [''Reporter/none'', ''statistics.json'']) worldStats
       = Inl (PathError ''open'' ''Reporter/none/statistics.json'' NotExist)
      \<and> parseStatistics lib0 ''Reporter/none'' worldStats
          = Inl (PathError ''open'' ''Reporter/none/statistics.json'' NotExist))
   \<and> (ReadFile (Join [''Reporter/cut'', ''statistics.json'']) worldStats = Inr ''{''
      \<and> jsonScan lib0 ''{'' = None
      \<and> parseStatistics lib0 ''Reporter/cut'' worldStats
          = Inl (SyntaxError ''unexpected end of JSON input''))
   \<and> (ReadFile (Join [''Reporter/r1'', ''statistics.json'']) worldStats = Inr statsText
      \<and> jsonScan lib0 statsText = Some (JObject [(''Total'', JObject statsMembers)])
      \<and> matching ''Total'' [(''Total'', JObject statsMembers)] = [JObject statsMembers]
      \<and> matching ''sampleCount'' statsMembers = [JNumber ''100'']
      \<and> ParseInt ''ParseInt'' ''100'' = Inr 100
      \<and> matching ''errorPct'' statsMembers = [JNumber ''2.5''] \<and> ParseFloat lib0 ''2.5'' = Some (5 / 2)
      \<and> matching ''meanResTime'' statsMembers = [JNumber ''123.4'']
      \<and> ParseFloat lib0 ''123.4'' = Some (617 / 5)
      \<and> matching ''throughput'' statsMembers = [JNumber ''50.0''] \<and> ParseFloat lib0 ''50.0'' = Some 50
      \<and> matching ''errorCount'' statsMembers = [JNumber ''2''] \<and> ParseInt ''ParseInt'' ''2'' = Inr 2
      \<and> parseStatistics lib0 ''Reporter/r1'' worldStats
          = Inr [''sampleCount'' \<mapsto> IntVal 100, ''errorPct'' \<mapsto> FloatVal (5 / 2),
                 ''meanResTime'' \<mapsto> FloatVal (617 / 5), ''throughput'' \<mapsto> FloatVal 50,
                 ''Errorcount'' \<mapsto> IntVal 2]
      \<and> dom [''sampleCount'' \<mapsto> IntVal 100, ''errorPct'' \<mapsto> FloatVal (5 / 2 :: rat),
              ''meanResTime'' \<mapsto> FloatVal (617 / 5), ''throughput'' \<mapsto> FloatVal 50,
              ''Errorcount'' \<mapsto> IntVal 2]
          = {''sampleCount'', ''errorPct'', ''meanResTime'', ''throughput'', ''Errorcount''})"
proof -
  let ?m = "[''sampleCount'' \<mapsto> IntVal 100, ''errorPct'' \<mapsto> FloatVal (5 / 2 :: rat),
             ''meanResTime'' \<mapsto> FloatVal (617 / 5), ''throughput'' \<mapsto> FloatVal 50,
             ''Errorcount'' \<mapsto> IntVal 2]"
  have h: "ReadFile (Join [''Reporter/r1'', ''statistics.json'']) worldStats = Inr statsText"
    "jsonScan lib0 statsText = Some (JObject [(''Total'', JObject statsMembers)])"
    "ParseFloat lib0 ''2.5'' = Some (5 / 2)" "ParseFloat lib0 ''123.4'' = Some (617 / 5)"
    "ParseFloat lib0 ''50.0'' = Some 50"
    by (simp_all add: stat_paths worldStats_ReadFile lib0_simps jsonScan0_simps statsJson_def
        parseFloat0_simps)
  have p1: "parseStatistics lib0 ''Reporter/none'' worldStats
          = Inl (PathError ''open'' ''Reporter/none/statistics.json'' NotExist)"
    using parseStatistics_spec [of "''Reporter/none''" worldStats
        "PathError ''open'' ''Reporter/none/statistics.json'' NotExist" lib0]
    by (simp add: stat_paths worldStats_ReadFile)
  have p2: "parseStatistics lib0 ''Reporter/cut'' worldStats
          = Inl (SyntaxError ''unexpected end of JSON input'')"
    using parseStatistics_spec [of "''Reporter/cut''" worldStats undefined lib0 "''{''"]
    by (simp add: stat_paths worldStats_ReadFile lib0_simps jsonScan0_simps)
  have p3: "parseStatistics lib0 ''Reporter/r1'' worldStats = Inr ?m"
    using parseStatistics_spec [where reportFolder = "''Reporter/r1''" and w = worldStats
        and lib = lib0 and data = statsText and tops = "[(''Total'', JObject statsMembers)]"
        and ms = statsMembers and sc = "''100''" and ep = "''2.5''" and mr = "''123.4''"
        and tp = "''50.0''" and ec = "''2''" and ?n1.0 = 100 and ?x1.0 = "5 / 2"
        and ?x2.0 = "617 / 5" and ?x3.0 = 50 and ?n2.0 = 2] h
    by (simp add: statsJson_matching ParseInt_literals del: fun_upd_apply)
  have p4: "dom ?m = {''sampleCount'', ''errorPct'', ''meanResTime'', ''throughput'', ''Errorcount''}"
    using parseStatistics_spec [where reportFolder = "''Reporter/r1''" and w = worldStats
        and lib = lib0 and m = ?m] p3
    by (simp del: fun_upd_apply dom_fun_upd)
  from h p1 p2 p3 p4 show ?thesis
    by (simp add: stat_paths worldStats_ReadFile lib0_simps jsonScan0_simps statsJson_matching
        ParseInt_literals del: fun_upd_apply dom_fun_upd)
qed








section \<open>The run of the command and the exit status\<close>


lemma later_trans:
  assumes "later a b" and "later b c"
  shows "later a c"
  unfolding later_def
proof (intro conjI allI)
  show "mkdirErr c = mkdirErr a"
    using assms by (simp add: later_def)
next
  fix d
  have 1: "statErr b d = statErr a d \<or> statErr b d = None"
    using assms(1) by (simp add: later_def)
  have 2: "statErr c d = statErr b d \<or> statErr c d = None"
    using assms(2) by (simp add: later_def)
  from 1 2 show "statErr c d = statErr a d \<or> statErr c d = None"
    by auto
qed



lemma andThen_Ret: "andThen (Ret x, w) f = f x w"
  by (simp add: andThen_def)

lemma andThen_Exit: "andThen (Exit c, w) f = (Exit c, w)"
  by (simp add: andThen_def)

lemma andThen_rel:
  assumes "R w (snd m)" and "\<And>x w1. R w1 (snd (f x w1))"
    and "\<And>a b c. R a b \<Longrightarrow> R b c \<Longrightarrow> R a c"
  shows "R w (snd (andThen m f))"
proof (cases m)
  case (Pair r w1)
  show ?thesis
  proof (cases r)
    case (Ret x)
    with Pair assms(1) assms(2) [of w1 x] show ?thesis
      by (auto simp: andThen_Ret intro: assms(3))
  next
    case (Exit c)
    with Pair assms(1) show ?thesis by (simp add: andThen_Exit)
  qed
qed

lemma later_andThen:
  "later w (snd m) \<Longrightarrow> (\<And>x w1. later w1 (snd (f x w1))) \<Longrightarrow> later w (snd (andThen m f))"
  by (rule andThen_rel [where R = later]) (auto intro: later_trans)



lemma andThen_snd_Ret:
  "isRet (fst m) \<Longrightarrow> snd (andThen m f) = snd (f (case fst m of Ret x \<Rightarrow> x) (snd m))"
  by (cases m; cases "fst m") (auto simp: andThen_def)









lemma isRet_ensureDir: "dirsOK w \<Longrightarrow> isRet (fst (ensureDir d w))"
  by (simp add: ensureDir_fst dirsOK_def)





lemma isRet_unit: "isRet r \<longleftrightarrow> r = Ret ()"
  by (cases r) auto


lemma writeLog_input:
  "readDir (snd (writeLog msg w)) = readDir w" "stdin (snd (writeLog msg w)) = stdin w"
  "spawned (snd (writeLog msg w)) = spawned w"
  by (auto simp: writeLog_def Now_def andThen_def ensureDir_def MkdirAll_def
      OpenAppend_def WriteString_def logOutput_def split: option.splits prod.splits)



























lemma parseThreadCount_cases:
  "(\<exists>n. parseThreadCount lib jmxFile w = (Ret n, w))
   \<or> (\<exists>msg. parseThreadCount lib jmxFile w
              = (if mkdirFails w debugDir then Exit 1 else Ret 0, snd (writeLog msg w)))"
  by (auto simp: parseThreadCount_def andThen_writeLog_Ret split: sum.splits option.splits)




lemma spawned_parseThreadCount: "spawned (snd (parseThreadCount lib jmxFile w)) = spawned w"
  using parseThreadCount_cases [of lib jmxFile w] by (auto simp: writeLog_input)

lemma andThen_writeLog:
  "andThen (writeLog msg w) f =
     (if mkdirFails w debugDir then (Exit 1, snd (writeLog msg w)) else f () (snd (writeLog msg w)))"
  using writeLog_fst [of msg w]
  by (cases "writeLog msg w") (auto simp: andThen_def split: outcome.splits if_splits)

lemma mkdirFails_writeLog:
  "\<not> mkdirFails w debugDir \<Longrightarrow> mkdirFails (snd (writeLog msg w)) d = mkdirFails w d"
  by (auto simp: writeLog_def Now_def andThen_def ensureDir_def MkdirAll_def mkdirFails_def
      OpenAppend_def WriteString_def logOutput_def split: option.splits prod.splits if_splits)

lemma mkdirFails_Now: "mkdirFails (snd (Now w)) d = mkdirFails w d"
  by (simp add: Now_def mkdirFails_def split: option.splits)




lemma spawned_andThen:
  "spawned (snd m) = spawned w \<Longrightarrow> (\<And>x w1. spawned (snd (f x w1)) = spawned w1)
     \<Longrightarrow> spawned (snd (andThen m f)) = spawned w"
  by (cases m; cases "fst m") (auto simp: andThen_def)

lemma parseStatistics_lookup:
  assumes "parseStatistics lib reportFolder w = Inr stats"
  shows "(\<exists>x. stats ''errorPct'' = Some (FloatVal x)) \<and> (\<exists>x. stats ''throughput'' = Some (FloatVal x))
     \<and> (\<exists>x. stats ''meanResTime'' = Some (FloatVal x)) \<and> (\<exists>n. stats ''sampleCount'' = Some (IntVal n))
     \<and> (\<exists>n. stats ''Errorcount'' = Some (IntVal n))"
proof (cases "ReadFile (Join [reportFolder, ''statistics.json'']) w")
  case (Inl e)
  with assms show ?thesis by (simp add: parseStatistics_def)
next
  case (Inr data)
  show ?thesis
  proof (cases "Unmarshal lib data (zeroStatistics lib)")
    case (Inl e)
    with Inr assms show ?thesis by (simp add: parseStatistics_def)
  next
    case st: (Inr st')
    with Inr assms have
      "stats = [''sampleCount'' \<mapsto> IntVal (SampleCount (Total st')),
            ''errorPct'' \<mapsto> FloatVal (ErrorPct (Total st')),
            ''meanResTime'' \<mapsto> FloatVal (MeanResTime (Total st')),
            ''throughput'' \<mapsto> FloatVal (Throughput (Total st')),
            ''Errorcount'' \<mapsto> IntVal (Errorcount (Total st'))]"
      by (simp add: parseStatistics_def del: fun_upd_apply)
    then show ?thesis by simp
  qed
qed

lemma logStatistics_writes:
  assumes "parseStatistics lib reportFolder w' = Inr stats"
  shows "\<exists>m1 m2 m3 m4 m5.
    logStatistics lib threadCount stats w =
     andThen (writeLog ''====== test statistics ======'' w) (\<lambda>_ w1.
     andThen (writeLog (''threads: '' @ itoa threadCount) w1) (\<lambda>_ w2.
     andThen (writeLog m1 w2) (\<lambda>_ w4.
     andThen (writeLog m2 w4) (\<lambda>_ w6.
     andThen (writeLog m3 w6) (\<lambda>_ w8.
     andThen (writeLog m4 w8) (\<lambda>_ w10.
     andThen (writeLog m5 w10) (\<lambda>_ w12.
     writeLog ''=========================='' w12)))))))"
proof -
  from parseStatistics_lookup [OF assms] obtain x1 x2 x3 n1 n2 where
    "stats ''errorPct'' = Some (FloatVal x1)" "stats ''throughput'' = Some (FloatVal x2)"
    "stats ''meanResTime'' = Some (FloatVal x3)" "stats ''sampleCount'' = Some (IntVal n1)"
    "stats ''Errorcount'' = Some (IntVal n2)"
    by auto
  then show ?thesis
    by (simp add: logStatistics_def asFloat_def asInt_def andThen_Ret) blast
qed



lemma spawned_logStatistics:
  assumes "parseStatistics lib reportFolder w' = Inr stats"
  shows "spawned (snd (logStatistics lib threadCount stats w)) = spawned w"
proof -
  from logStatistics_writes [OF assms, of threadCount w] obtain m1 m2 m3 m4 m5 where
    e: "logStatistics lib threadCount stats w =
     andThen (writeLog ''====== test statistics ======'' w) (\<lambda>_ w1.
     andThen (writeLog (''threads: '' @ itoa threadCount) w1) (\<lambda>_ w2.
     andThen (writeLog m1 w2) (\<lambda>_ w4.
     andThen (writeLog m2 w4) (\<lambda>_ w6.
     andThen (writeLog m3 w6) (\<lambda>_ w8.
     andThen (writeLog m4 w8) (\<lambda>_ w10.
     andThen (writeLog m5 w10) (\<lambda>_ w12.
     writeLog ''=========================='' w12)))))))"
    by blast
  show ?thesis
    unfolding e by (intro spawned_andThen writeLog_input(3))
qed




lemma spawned_after:
  "spawned (snd (case err of
      Some e \<Rightarrow> andThen (writeLog (m1 e) w) (\<lambda>_ w6. (Ret (), Print m2 w6))
    | None \<Rightarrow> andThen (writeLog m3 w) (\<lambda>_ w6.
        andThen (parseThreadCount lib jmxFile w6) (\<lambda>threadCount w7.
          case parseStatistics lib reportFolder w7 of
            Inr stats \<Rightarrow> logStatistics lib threadCount stats w7
          | Inl e \<Rightarrow> writeLog (m4 e) w7)))) = spawned w"
  by (auto simp: writeLog_input Print_simps spawned_parseThreadCount
      intro!: spawned_andThen spawned_logStatistics
      split: option.splits sum.splits)

lemma spawned_Run: "spawned (snd (Run c w)) = spawned w @ [c]"
  by (simp add: Run_def case_prod_beta)

lemma spawned_Now: "spawned (snd (Now w)) = spawned w"
  by (simp add: Now_def)

lemma spawned_two_writes:
  assumes "\<And>w3. spawned (snd (f w3)) = spawned w3 @ [c]"
  shows "spawned (snd (andThen (writeLog a w) (\<lambda>_ w2. andThen (writeLog b w2) (\<lambda>_. f))))
           = spawned w @ (if mkdirFails w debugDir then [] else [c])"
  by (simp add: andThen_writeLog mkdirFails_writeLog writeLog_input assms)

lemma spawned_runJMeter:
  "spawned (snd (runJMeter lib jmxFile resultFile reportFolder debugFile w)) =
     spawned w @
       (if mkdirFails w debugDir then []
        else [\<lparr>Path = ''jmeter'',
               Args = [''jmeter'', ''-n'', ''-t'', jmxFile, ''-l'', resultFile, ''-e'', ''-o'',
                       reportFolder, ''-j'', debugFile],
               Stdout = Some OsStdout, Stderr = Some OsStderr\<rparr>])"
proof -
  have "spawned (snd (runJMeter lib jmxFile resultFile reportFolder debugFile w)) =
     spawned (snd (Now w)) @
       (if mkdirFails (snd (Now w)) debugDir then []
        else [(jmeterCommand jmxFile resultFile reportFolder debugFile)
                \<lparr>Stdout := Some OsStdout, Stderr := Some OsStderr\<rparr>])"
    unfolding runJMeter_def Let_def case_prod_beta
    by (rule spawned_two_writes) (simp add: spawned_after spawned_Run spawned_Now Print_simps)
  then show ?thesis
    by (simp add: spawned_Now mkdirFails_Now jmeterCommand_def)
qed










text \<open>
  Claim C8. \<open>runJMeter\<close> runs one command, unless its first log line ends the process
  because the log directory is reported absent and cannot be created: the program
  \<open>jmeter\<close> with the arguments \<open>-n -t jmxFile -l resultFile -e -o reportFolder -j
  debugFile\<close> in this order (\<open>Args\<close> holds the command name first), its standard output
  and standard error set to those of the program itself. This holds for every plan,
  result file, report folder and debug file, and whatever the command does.
\<close>

theorem runJMeter_command:
  "spawned (snd (runJMeter lib jmxFile resultFile reportFolder debugFile w)) =
     spawned w @
       (if mkdirFails w debugDir then []
        else [\<lparr>Path = ''jmeter'',
               Args = [''jmeter'', ''-n'', ''-t'', jmxFile, ''-l'', resultFile, ''-e'', ''-o'',
                       reportFolder, ''-j'', debugFile],
               Stdout = Some OsStdout, Stderr = Some OsStderr\<rparr>])"
  by (rule spawned_runJMeter)

theorem runJMeter_command_witness:
  "\<not> mkdirFails worldRunFails debugDir
   \<and> spawned (snd (runJMeter lib0 ''a.jmx'' ''Jtl/first.jtl'' ''Reporter/report1''
                     ''Debug/debug1.log'' worldRunFails))
       = [\<lparr>Path = ''jmeter'',
           Args = [''jmeter'', ''-n'', ''-t'', ''a.jmx'', ''-l'', ''Jtl/first.jtl'', ''-e'', ''-o'',
                   ''Reporter/report1'', ''-j'', ''Debug/debug1.log''],
           Stdout = Some OsStdout, Stderr = Some OsStderr\<rparr>]
   \<and> mkdirFails worldNoDebug debugDir
   \<and> spawned (snd (runJMeter lib0 ''a.jmx'' ''Jtl/first.jtl'' ''Reporter/report1''
                     ''Debug/debug1.log'' worldNoDebug)) = []"
  using runJMeter_command [of lib0 "''a.jmx''" "''Jtl/first.jtl''" "''Reporter/report1''"
      "''Debug/debug1.log''" worldRunFails]
    runJMeter_command [of lib0 "''a.jmx''" "''Jtl/first.jtl''" "''Reporter/report1''"
      "''Debug/debug1.log''" worldNoDebug]
  by (simp add: mkdirFails_def worldRunFails_def worldRun_def worldPlans_def worldNoDebug_def
      world0_def debugDir_def)




end
